theory Spec2Isabelle
  imports Complex_Main "HOL-Library.AList" "HOL-Library.Multiset"
    "HOL-Library.Char_ord" "HOL-Library.List_Lexorder"
begin

section \<open>Data model\<close>

text \<open>
  The adapter of \<^verbatim>\<open>src/mcp/world_adapter.py\<close> works on the classes of
  \<^verbatim>\<open>world.affinity.core\<close> and on the dataclasses of \<^verbatim>\<open>mcp/schemas.py\<close>.
  The value of a Python float that the program holds or reads from its clock is a real
  number; arithmetic on floats goes through the operations of the environment below,
  which stand for the rounded operations of the machine, and comparisons are those of the
  reals. The threshold of a trace query, which the code compares with decayed values and
  never computes with, arrives in a request and may also be infinite or not a number
  (type \<open>pyfloat\<close>). Python ints are \<^typ>\<open>int\<close>, and a Python \<^verbatim>\<open>dict\<close> is an association
  list in insertion order:
  \<^verbatim>\<open>d.get(k)\<close> is \<^const>\<open>map_of\<close>, \<^verbatim>\<open>d[k] = v\<close> is \<^const>\<open>AList.update\<close> (in place
  for a known key, appended for a new one), \<^verbatim>\<open>d.items()\<close> is the list itself.
  Fields that several Python classes share carry a prefix for all but one class.
\<close>

type_synonym ('k, 'v) dict = "('k \<times> 'v) list"

record TraceRecord =
  accumulated :: real
  last_updated :: real
  event_count :: int
  is_scar :: bool

record AffordanceConfig =
  affordance_type :: string
  enabled :: bool
  mechanical_handle :: "string option"
  severity_clamp_hostile :: real
  severity_clamp_favorable :: real
  cooldown_seconds :: int
  tells_hostile :: "string list"
  tells_favorable :: "string list"

text \<open>One value per channel: the shape of \<^verbatim>\<open>location.saturation\<close>,
  \<^verbatim>\<open>config.half_lives.location\<close> and \<^verbatim>\<open>config.channel_weights\<close>.\<close>

record Channels =
  personal :: real
  group :: real
  behavior :: real

record Location =
  location_id :: string
  name :: string
  description :: string
  valuation_profile :: "(string, real) dict"
  personal_traces :: "(string \<times> string, TraceRecord) dict"
  group_traces :: "(string \<times> string, TraceRecord) dict"
  behavior_traces :: "(string, TraceRecord) dict"
  saturation :: Channels
  affordances :: "AffordanceConfig list"
  cooldowns :: "(string, real) dict"
  last_tick :: real

record AffinityEvent =
  ev_event_type :: string
  ev_actor_id :: string
  ev_actor_tags :: "string set"
  ev_location_id :: string
  ev_intensity :: real

datatype DecayChannel = PERSONAL | GROUP | BEHAVIOR

fun channel_value :: "DecayChannel \<Rightarrow> string" where
  "channel_value PERSONAL = ''personal''"
| "channel_value GROUP = ''group''"
| "channel_value BEHAVIOR = ''behavior''"

record LocationQuery =
  lq_location_id :: string
  include_traces :: bool
  include_affordances :: bool
  decay_to_now :: bool

text \<open>A float of a request: JSON admits \<^verbatim>\<open>NaN\<close>, \<^verbatim>\<open>Infinity\<close> and \<^verbatim>\<open>-Infinity\<close> besides
  numbers. \<open>less_float x y\<close> is Python's \<^verbatim>\<open>x < y\<close> and \<open>at_least x y\<close> is \<^verbatim>\<open>x >= y\<close> for a
  number \<open>x\<close>; both are false when \<open>y\<close> is not a number.\<close>

datatype pyfloat = Float real | PosInf | NegInf | NaN

fun less_float :: "real \<Rightarrow> pyfloat \<Rightarrow> bool" where
  "less_float x (Float y) = (x < y)"
| "less_float x PosInf = True"
| "less_float x NegInf = False"
| "less_float x NaN = False"

fun at_least :: "real \<Rightarrow> pyfloat \<Rightarrow> bool" where
  "at_least x (Float y) = (y \<le> x)"
| "at_least x PosInf = False"
| "at_least x NegInf = True"
| "at_least x NaN = False"

record TraceQuery =
  tq_location_id :: "string option"
  tq_actor_id :: "string option"
  tq_event_type :: "string option"
  tq_channel :: "DecayChannel option"
  min_intensity :: pyfloat
  limit :: int

record ActionPrediction =
  ap_actor_id :: string
  ap_actor_tags :: "string list"
  ap_location_id :: string
  ap_event_type :: string
  ap_intensity :: real

record TraceInfo =
  key :: string
  channel :: string
  ti_accumulated :: real
  decayed_value :: real
  ti_last_updated :: real
  ti_event_count :: int
  ti_is_scar :: bool

record AffordanceInfo =
  ai_affordance_type :: string
  ai_enabled :: bool
  ai_mechanical_handle :: "string option"
  ai_severity_clamp_hostile :: real
  ai_severity_clamp_favorable :: real
  ai_cooldown_seconds :: int
  cooldown_remaining :: "real option"
  ai_tells_hostile :: "string list"
  ai_tells_favorable :: "string list"

record LocationState =
  ls_location_id :: string
  ls_name :: string
  ls_description :: string
  ls_valuation_profile :: "(string, real) dict"
  ls_saturation :: "(string, real) dict"
  traces :: "TraceInfo list"
  ls_affordances :: "AffordanceInfo list"
  ls_last_tick :: real

record AffinityScore =
  total :: real
  as_personal :: real
  as_group :: real
  as_behavior :: real
  threshold_label :: string

record ActionConsequence =
  ac_location_id :: string
  ac_actor_id :: string
  ac_event_type :: string
  affinity_before :: "AffinityScore option"
  affinity_after :: "AffinityScore option"
  triggered_affordances :: "string list"
  narrative_hints :: "string list"

text \<open>An entry of \<^verbatim>\<open>dominant_events\<close>: the dict with the keys
  \<^verbatim>\<open>event_type\<close>, \<^verbatim>\<open>actor\<close>, \<^verbatim>\<open>intensity\<close>, \<^verbatim>\<open>count\<close>.\<close>

record DominantEvent =
  de_event_type :: string
  de_actor :: string
  de_intensity :: real
  de_count :: int

record WorldHistorySummary =
  wh_location_id :: string
  time_window_days :: int
  dominant_events :: "DominantEvent list"
  notable_actors :: "string list"
  mood :: string
  folklore_seeds :: "string list"

text \<open>The adapter's \<^verbatim>\<open>_locations\<close> dictionary.\<close>

type_synonym store = "(string, Location) dict"

subsection \<open>The collaborators outside the adapter\<close>

text \<open>
  The adapter imports its configuration and the functions \<^verbatim>\<open>get_decayed_value\<close>,
  \<^verbatim>\<open>score_personal\<close>, \<^verbatim>\<open>score_group\<close>, \<^verbatim>\<open>score_behavior\<close>,
  \<^verbatim>\<open>get_threshold_label\<close>, \<^verbatim>\<open>log_event\<close> and \<^verbatim>\<open>is_affordance_enabled\<close> from the
  package \<^verbatim>\<open>world.affinity\<close>. They are parameters of the model, gathered in one record;
  every theorem below that mentions \<open>E\<close> holds for all of them. The readings of the clock
  (\<^verbatim>\<open>time.time()\<close>) are arguments of the operations. \<^verbatim>\<open>log_event\<close> mutates the location
  it is given, so here it returns the updated location. The record also holds the
  primitives of the language whose result the model leaves open: \<^verbatim>\<open>set_to_list\<close> is the
  order in which \<^verbatim>\<open>list(s)\<close> enumerates a set; \<^verbatim>\<open>float_add\<close>, \<^verbatim>\<open>float_sub\<close> and \<^verbatim>\<open>float_mul\<close>
  are \<^verbatim>\<open>+\<close>, \<^verbatim>\<open>-\<close> and \<^verbatim>\<open>*\<close> on floats with their rounding; \<^verbatim>\<open>float_of_int\<close> is the float
  nearest to an int that is in the range of the floats; \<^verbatim>\<open>str_lower\<close> is \<^verbatim>\<open>str.lower\<close>.
\<close>

record env =
  half_lives_location :: Channels
  channel_weights :: Channels
  get_decayed_value :: "TraceRecord \<Rightarrow> real \<Rightarrow> real \<Rightarrow> real"
  score_personal ::
    "(string \<times> string, TraceRecord) dict \<Rightarrow> string \<Rightarrow> real \<Rightarrow> (string, real) dict \<Rightarrow> real \<Rightarrow> real"
  score_group ::
    "(string \<times> string, TraceRecord) dict \<Rightarrow> string set \<Rightarrow> real \<Rightarrow> (string, real) dict \<Rightarrow> real \<Rightarrow> real"
  score_behavior ::
    "(string, TraceRecord) dict \<Rightarrow> real \<Rightarrow> (string, real) dict \<Rightarrow> real \<Rightarrow> real"
  get_threshold_label :: "real \<Rightarrow> string"
  log_event :: "Location \<Rightarrow> AffinityEvent \<Rightarrow> real \<Rightarrow> Location"
  is_affordance_enabled :: "string \<Rightarrow> bool"
  set_to_list :: "string set \<Rightarrow> string list"
  float_add :: "real \<Rightarrow> real \<Rightarrow> real"
  float_sub :: "real \<Rightarrow> real \<Rightarrow> real"
  float_mul :: "real \<Rightarrow> real \<Rightarrow> real"
  float_of_int :: "int \<Rightarrow> real"
  str_lower :: "string \<Rightarrow> string"

section \<open>Location queries\<close>

definition get_location :: "store \<Rightarrow> string \<Rightarrow> Location option" where
  "get_location S lid = map_of S lid"

definition list_locations :: "store \<Rightarrow> string list" where
  "list_locations S = map fst S"

text \<open>The f-string \<^verbatim>\<open>f"({actor_id}, {event_type})"\<close>.\<close>

definition pair_key :: "string \<times> string \<Rightarrow> string" where
  "pair_key k = ''('' @ fst k @ '', '' @ snd k @ '')''"

definition trace_info :: "string \<Rightarrow> string \<Rightarrow> real \<Rightarrow> TraceRecord \<Rightarrow> TraceInfo" where
  "trace_info k ch decayed trace =
     \<lparr>key = k, channel = ch, ti_accumulated = accumulated trace, decayed_value = decayed,
      ti_last_updated = last_updated trace, ti_event_count = event_count trace,
      ti_is_scar = is_scar trace\<rparr>"

text \<open>\<^verbatim>\<open>config.half_lives.location.personal * 86400\<close> and its two siblings: the half-lives
  in seconds.\<close>

definition personal_hl :: "env \<Rightarrow> real" where
  "personal_hl E = float_mul E (personal (half_lives_location E)) 86400"

definition group_hl :: "env \<Rightarrow> real" where
  "group_hl E = float_mul E (group (half_lives_location E)) 86400"

definition behavior_hl :: "env \<Rightarrow> real" where
  "behavior_hl E = float_mul E (behavior (half_lives_location E)) 86400"

definition state_traces :: "env \<Rightarrow> LocationQuery \<Rightarrow> real \<Rightarrow> Location \<Rightarrow> TraceInfo list" where
  "state_traces E q now location =
     (let value_of = (\<lambda>hl trace.
            if decay_to_now q then get_decayed_value E trace hl now else accumulated trace)
      in map (\<lambda>(k, trace).
                trace_info (pair_key k) ''personal'' (value_of (personal_hl E) trace) trace)
           (personal_traces location)
       @ map (\<lambda>(k, trace). trace_info (pair_key k) ''group'' (value_of (group_hl E) trace) trace)
           (group_traces location)
       @ map (\<lambda>(k, trace). trace_info k ''behavior'' (value_of (behavior_hl E) trace) trace)
           (behavior_traces location))"

definition affordance_info :: "env \<Rightarrow> Location \<Rightarrow> real \<Rightarrow> AffordanceConfig \<Rightarrow> AffordanceInfo" where
  "affordance_info E location now aff =
     \<lparr>ai_affordance_type = affordance_type aff,
      ai_enabled = (enabled aff \<and> is_affordance_enabled E (affordance_type aff)),
      ai_mechanical_handle = mechanical_handle aff,
      ai_severity_clamp_hostile = severity_clamp_hostile aff,
      ai_severity_clamp_favorable = severity_clamp_favorable aff,
      ai_cooldown_seconds = cooldown_seconds aff,
      cooldown_remaining =
        (case map_of (cooldowns location) (affordance_type aff) of
           None \<Rightarrow> None
         | Some until \<Rightarrow> Some (max 0 (float_sub E until now))),
      ai_tells_hostile = tells_hostile aff,
      ai_tells_favorable = tells_favorable aff\<rparr>"

definition get_location_state :: "env \<Rightarrow> store \<Rightarrow> LocationQuery \<Rightarrow> real \<Rightarrow> LocationState option" where
  "get_location_state E S q now =
     (case map_of S (lq_location_id q) of
        None \<Rightarrow> None
      | Some location \<Rightarrow>
          Some \<lparr>ls_location_id = location_id location,
                ls_name = name location,
                ls_description = description location,
                ls_valuation_profile = valuation_profile location,
                ls_saturation =
                  [(''personal'', personal (saturation location)),
                   (''group'', group (saturation location)),
                   (''behavior'', behavior (saturation location))],
                traces = (if include_traces q then state_traces E q now location else []),
                ls_affordances =
                  (if include_affordances q
                   then map (affordance_info E location now) (affordances location) else []),
                ls_last_tick = last_tick location\<rparr>)"

section \<open>Affinity queries\<close>

definition compute_affinity_for_actor ::
  "env \<Rightarrow> store \<Rightarrow> string \<Rightarrow> string \<Rightarrow> string set \<Rightarrow> real \<Rightarrow> AffinityScore option" where
  "compute_affinity_for_actor E S lid actor actor_tags now =
     (case map_of S lid of
        None \<Rightarrow> None
      | Some location \<Rightarrow>
          (let p = score_personal E (personal_traces location) actor (personal_hl E)
                     (valuation_profile location) now;
               g = score_group E (group_traces location) actor_tags (group_hl E)
                     (valuation_profile location) now;
               b = score_behavior E (behavior_traces location) (behavior_hl E)
                     (valuation_profile location) now;
               weights = channel_weights E;
               tot = float_add E
                       (float_add E (float_mul E p (personal weights))
                          (float_mul E g (group weights)))
                       (float_mul E b (behavior weights))
           in Some \<lparr>total = tot, as_personal = p, as_group = g, as_behavior = b,
                     threshold_label = get_threshold_label E tot\<rparr>))"

section \<open>Trace queries\<close>

text \<open>An exception raised by the Python code. \<^verbatim>\<open>d[k]\<close> on a missing key raises
  \<^verbatim>\<open>KeyError(k)\<close>; arithmetic of a float with an int that is too large to convert to a
  float raises \<^verbatim>\<open>OverflowError\<close>.\<close>

datatype error = KeyError string | OverflowError

text \<open>Truth value of an \<^verbatim>\<open>Optional[str]\<close>: \<^verbatim>\<open>None\<close> and the empty string are false.\<close>

definition truthy :: "string option \<Rightarrow> bool" where
  "truthy s = (case s of None \<Rightarrow> False | Some v \<Rightarrow> v \<noteq> [])"

text \<open>\<^verbatim>\<open>query.channel is None or query.channel.value == ch\<close>\<close>

definition channel_selected :: "TraceQuery \<Rightarrow> string \<Rightarrow> bool" where
  "channel_selected q ch = (case tq_channel q of None \<Rightarrow> True | Some c \<Rightarrow> channel_value c = ch)"

text \<open>The three inner loops of \<^verbatim>\<open>query_traces\<close>; every \<^verbatim>\<open>continue\<close> is a branch that
  goes on with the rest of the items.\<close>

fun scan_personal ::
  "env \<Rightarrow> TraceQuery \<Rightarrow> real \<Rightarrow> real \<Rightarrow> (string \<times> string, TraceRecord) dict \<Rightarrow> TraceInfo list" where
  "scan_personal E q hl now [] = []"
| "scan_personal E q hl now (((actor_id, event_type), trace) # rest) =
     (if truthy (tq_actor_id q) \<and> Some actor_id \<noteq> tq_actor_id q then scan_personal E q hl now rest
      else if truthy (tq_event_type q) \<and> Some event_type \<noteq> tq_event_type q
        then scan_personal E q hl now rest
      else if less_float (get_decayed_value E trace hl now) (min_intensity q)
        then scan_personal E q hl now rest
      else trace_info (pair_key (actor_id, event_type)) ''personal''
             (get_decayed_value E trace hl now) trace # scan_personal E q hl now rest)"

fun scan_group ::
  "env \<Rightarrow> TraceQuery \<Rightarrow> real \<Rightarrow> real \<Rightarrow> (string \<times> string, TraceRecord) dict \<Rightarrow> TraceInfo list" where
  "scan_group E q hl now [] = []"
| "scan_group E q hl now (((actor_tag, event_type), trace) # rest) =
     (if truthy (tq_event_type q) \<and> Some event_type \<noteq> tq_event_type q
        then scan_group E q hl now rest
      else if less_float (get_decayed_value E trace hl now) (min_intensity q)
        then scan_group E q hl now rest
      else trace_info (pair_key (actor_tag, event_type)) ''group''
             (get_decayed_value E trace hl now) trace # scan_group E q hl now rest)"

fun scan_behavior ::
  "env \<Rightarrow> TraceQuery \<Rightarrow> real \<Rightarrow> real \<Rightarrow> (string, TraceRecord) dict \<Rightarrow> TraceInfo list" where
  "scan_behavior E q hl now [] = []"
| "scan_behavior E q hl now ((event_type, trace) # rest) =
     (if truthy (tq_event_type q) \<and> Some event_type \<noteq> tq_event_type q
        then scan_behavior E q hl now rest
      else if less_float (get_decayed_value E trace hl now) (min_intensity q)
        then scan_behavior E q hl now rest
      else trace_info event_type ''behavior''
             (get_decayed_value E trace hl now) trace # scan_behavior E q hl now rest)"

text \<open>One round of the outer loop: what a location appends to \<^verbatim>\<open>results\<close>.\<close>

definition scan_location :: "env \<Rightarrow> TraceQuery \<Rightarrow> real \<Rightarrow> Location \<Rightarrow> TraceInfo list" where
  "scan_location E q now location =
     (if channel_selected q ''personal''
      then scan_personal E q (personal_hl E) now (personal_traces location)
      else [])
   @ (if channel_selected q ''group''
      then scan_group E q (group_hl E) now (group_traces location)
      else [])
   @ (if channel_selected q ''behavior''
      then scan_behavior E q (behavior_hl E) now (behavior_traces location)
      else [])"

text \<open>\<^verbatim>\<open>[self._locations[query.location_id]] if query.location_id else self._locations.values()\<close>\<close>

definition query_locations :: "store \<Rightarrow> TraceQuery \<Rightarrow> error + Location list" where
  "query_locations S q =
     (case tq_location_id q of
        None \<Rightarrow> Inr (map snd S)
      | Some lid \<Rightarrow>
          if lid = [] then Inr (map snd S)
          else (case map_of S lid of None \<Rightarrow> Inl (KeyError lid) | Some location \<Rightarrow> Inr [location]))"

text \<open>All matches of a list of locations, in the order the loops append them.\<close>

definition candidates :: "env \<Rightarrow> TraceQuery \<Rightarrow> real \<Rightarrow> Location list \<Rightarrow> TraceInfo list" where
  "candidates E q now locations = concat (map (scan_location E q now) locations)"

text \<open>\<^verbatim>\<open>results.sort(key=lambda t: t.decayed_value, reverse=True)\<close>: Python's sort is stable,
  also with \<^verbatim>\<open>reverse=True\<close>, and so is \<^const>\<open>sort_key\<close> on the negated key.\<close>

definition sort_desc :: "TraceInfo list \<Rightarrow> TraceInfo list" where
  "sort_desc results = sort_key (\<lambda>t. - decayed_value t) results"

text \<open>The slice \<^verbatim>\<open>xs[:n]\<close>: a negative \<open>n\<close> counts from the end.\<close>

definition py_slice_to :: "int \<Rightarrow> 'a list \<Rightarrow> 'a list" where
  "py_slice_to n xs =
     (if 0 \<le> n then take (nat n) xs else take (nat (int (length xs) + n)) xs)"

definition query_traces :: "env \<Rightarrow> store \<Rightarrow> TraceQuery \<Rightarrow> real \<Rightarrow> error + TraceInfo list" where
  "query_traces E S q now =
     (case query_locations S q of
        Inl e \<Rightarrow> Inl e
      | Inr locations \<Rightarrow> Inr (py_slice_to (limit q) (sort_desc (candidates E q now locations))))"

section \<open>Action prediction\<close>

text \<open>The two loops over \<^verbatim>\<open>location.affordances\<close>, with the lists they append to.\<close>

fun hostile_loop ::
  "AffordanceConfig list \<Rightarrow> string list \<Rightarrow> string list \<Rightarrow> string list \<times> string list" where
  "hostile_loop [] triggered hints = (triggered, hints)"
| "hostile_loop (aff # rest) triggered hints =
     (if enabled aff
      then hostile_loop rest (triggered @ [affordance_type aff])
             (case tells_hostile aff of [] \<Rightarrow> hints | t # _ \<Rightarrow> hints @ [t])
      else hostile_loop rest triggered hints)"

fun favorable_loop :: "AffordanceConfig list \<Rightarrow> string list \<Rightarrow> string list" where
  "favorable_loop [] hints = hints"
| "favorable_loop (aff # rest) hints =
     (if enabled aff
      then favorable_loop rest (case tells_favorable aff of [] \<Rightarrow> hints | t # _ \<Rightarrow> hints @ [t])
      else favorable_loop rest hints)"

definition affordance_effects ::
  "AffinityScore option \<Rightarrow> AffordanceConfig list \<Rightarrow> string list \<times> string list" where
  "affordance_effects affinity affs =
     (case affinity of
        None \<Rightarrow> ([], [])
      | Some a \<Rightarrow>
          if threshold_label a \<in> set [''hostile'', ''wary''] then hostile_loop affs [] []
          else if threshold_label a \<in> set [''warm'', ''favorable''] then ([], favorable_loop affs [])
          else ([], []))"

text \<open>
  The method reads the clock three times: in the first \<^verbatim>\<open>compute_affinity_for_actor\<close>,
  in \<^verbatim>\<open>log_event\<close> and in the second \<^verbatim>\<open>compute_affinity_for_actor\<close>. It returns its result
  together with the store it leaves behind. \<^verbatim>\<open>copy.deepcopy\<close> is the identity on values.
\<close>

definition predict_action_consequence ::
  "env \<Rightarrow> store \<Rightarrow> ActionPrediction \<Rightarrow> real \<times> real \<times> real \<Rightarrow> ActionConsequence option \<times> store" where
  "predict_action_consequence E S prediction clock =
     (case map_of S (ap_location_id prediction) of
        None \<Rightarrow> (None, S)
      | Some location \<Rightarrow>
          (let actor_tags = set (ap_actor_tags prediction);
               before = compute_affinity_for_actor E S (ap_location_id prediction)
                          (ap_actor_id prediction) actor_tags (fst clock);
               event = \<lparr>ev_event_type = ap_event_type prediction,
                        ev_actor_id = ap_actor_id prediction,
                        ev_actor_tags = actor_tags,
                        ev_location_id = ap_location_id prediction,
                        ev_intensity = ap_intensity prediction\<rparr>;
               temp_location = log_event E location event (fst (snd clock));
               original = map_of S (ap_location_id prediction);
               S1 = AList.update (ap_location_id prediction) temp_location S;
               after = compute_affinity_for_actor E S1 (ap_location_id prediction)
                         (ap_actor_id prediction) actor_tags (snd (snd clock));
               S2 = (case original of
                       None \<Rightarrow> S1
                     | Some loc \<Rightarrow> AList.update (ap_location_id prediction) loc S1);
               effects = affordance_effects after (affordances location)
           in (Some \<lparr>ac_location_id = ap_location_id prediction,
                      ac_actor_id = ap_actor_id prediction,
                      ac_event_type = ap_event_type prediction,
                      affinity_before = before,
                      affinity_after = after,
                      triggered_affordances = fst effects,
                      narrative_hints = snd effects\<rparr>, S2)))"

section \<open>World history\<close>

text \<open>\<^verbatim>\<open>s.split('.')[0]\<close>: the part of \<open>s\<close> before its first separator, all of \<open>s\<close> when
  it has none.\<close>

fun split_first :: "char \<Rightarrow> string \<Rightarrow> string" where
  "split_first d [] = []"
| "split_first d (c # cs) = (if c = d then [] else c # split_first d cs)"

definition category_of :: "string \<Rightarrow> string" where
  "category_of event_type = split_first (CHR ''.'') event_type"

text \<open>\<^verbatim>\<open>d.get(k, default)\<close>\<close>

definition dict_get :: "('k, 'v) dict \<Rightarrow> 'k \<Rightarrow> 'v \<Rightarrow> 'v" where
  "dict_get d k dflt = (case map_of d k of None \<Rightarrow> dflt | Some v \<Rightarrow> v)"

text \<open>The loop over the personal traces, with the set and the list it fills.\<close>

fun personal_loop ::
  "real \<Rightarrow> (string \<times> string, TraceRecord) dict \<Rightarrow> string set \<Rightarrow> DominantEvent list
     \<Rightarrow> string set \<times> DominantEvent list" where
  "personal_loop cutoff [] actors events = (actors, events)"
| "personal_loop cutoff (((actor_id, event_type), trace) # rest) actors events =
     (if last_updated trace \<ge> cutoff
      then personal_loop cutoff rest (insert actor_id actors)
             (events @ [\<lparr>de_event_type = event_type, de_actor = actor_id,
                          de_intensity = accumulated trace, de_count = event_count trace\<rparr>])
      else personal_loop cutoff rest actors events)"

text \<open>The loop over the behavior traces, with the dictionary \<^verbatim>\<open>behavior_summary\<close>.\<close>

fun behavior_loop ::
  "env \<Rightarrow> real \<Rightarrow> (string, TraceRecord) dict \<Rightarrow> (string, real) dict \<Rightarrow> (string, real) dict" where
  "behavior_loop E cutoff [] summary = summary"
| "behavior_loop E cutoff ((event_type, trace) # rest) summary =
     (if last_updated trace \<ge> cutoff
      then (let category = category_of event_type
            in behavior_loop E cutoff rest
                 (AList.update category
                    (float_add E (dict_get summary category 0) (accumulated trace)) summary))
      else behavior_loop E cutoff rest summary)"

definition mood_of :: "real \<Rightarrow> real \<Rightarrow> real \<Rightarrow> string" where
  "mood_of harm offer create =
     (if harm > 0.5 then (if harm < 1.0 then ''troubled'' else ''violent'')
      else if offer > 0.3 \<or> create > 0.3 then (if offer > 0.5 then ''sacred'' else ''peaceful'')
      else ''peaceful'')"

definition folklore :: "env \<Rightarrow> Location \<Rightarrow> real \<Rightarrow> real \<Rightarrow> real \<Rightarrow> string list" where
  "folklore E location harm offer create =
     (if harm > 0 \<and> dict_get (valuation_profile location) ''harm'' 0 < 0
      then [''The '' @ str_lower E (name location) @ '' remembers those who brought harm'']
      else [])
   @ (if dict_get (valuation_profile location) ''harm.fire'' 0 < - 0.5
      then [''Fire is forbidden in these parts''] else [])
   @ (if offer > 0 then [''Travelers who leave offerings find easier paths''] else [])
   @ (if create > 0 then [''Those who plant and tend are welcomed''] else [])"

text \<open>The conversion of an int to a float, which the subtraction of an int from a float
  performs. It rounds to the nearest float and raises \<^verbatim>\<open>OverflowError\<close> when the result
  is beyond the largest float, that is for a magnitude of \<open>2^1024 - 2^970\<close> or more.\<close>

definition int_to_float :: "env \<Rightarrow> int \<Rightarrow> error + real" where
  "int_to_float E n =
     (if \<bar>n\<bar> < 2 ^ 1024 - 2 ^ 970 then Inr (float_of_int E n) else Inl OverflowError)"

text \<open>\<^verbatim>\<open>cutoff = now - (time_window_days * 86400)\<close>: an int product, then a float
  difference.\<close>

definition history_cutoff :: "env \<Rightarrow> real \<Rightarrow> int \<Rightarrow> error + real" where
  "history_cutoff E now days =
     (case int_to_float E (days * 86400) of
        Inl e \<Rightarrow> Inl e
      | Inr seconds \<Rightarrow> Inr (float_sub E now seconds))"

text \<open>The method returns \<^verbatim>\<open>None\<close> for an unknown location before it computes the cutoff;
  an exception of the cutoff leaves the method (\<open>Inl\<close>).\<close>

definition get_world_history_summary ::
  "env \<Rightarrow> store \<Rightarrow> string \<Rightarrow> int \<Rightarrow> real \<Rightarrow> error + WorldHistorySummary option" where
  "get_world_history_summary E S lid days now =
     (case map_of S lid of
        None \<Rightarrow> Inr None
      | Some location \<Rightarrow>
          (case history_cutoff E now days of
             Inl e \<Rightarrow> Inl e
           | Inr cutoff \<Rightarrow>
               (let found = personal_loop cutoff (personal_traces location) {} [];
                    behavior_summary = behavior_loop E cutoff (behavior_traces location) [];
                    harm = dict_get behavior_summary ''harm'' 0;
                    offer = dict_get behavior_summary ''offer'' 0;
                    create = dict_get behavior_summary ''create'' 0
                in Inr (Some \<lparr>wh_location_id = lid,
                     time_window_days = days,
                     dominant_events =
                       py_slice_to 10 (sort_key (\<lambda>e. - de_intensity e) (snd found)),
                     notable_actors = py_slice_to 10 (set_to_list E (fst found)),
                     mood = mood_of harm offer create,
                     folklore_seeds = folklore E location harm offer create\<rparr>))))"

section \<open>Export\<close>

record ExportedTrace =
  et_key :: string
  et_channel :: string
  et_accumulated :: real
  et_decayed_value :: real
  et_event_count :: int
  et_is_scar :: bool

record ExportedAffordance =
  ea_type :: string
  ea_enabled :: bool
  ea_mechanical_handle :: "string option"

record ExportedLocation =
  ex_location_id :: string
  ex_name :: string
  ex_description :: string
  ex_valuation_profile :: "(string, real) dict"
  ex_saturation :: "(string, real) dict"
  ex_traces :: "ExportedTrace list"
  ex_affordances :: "ExportedAffordance list"

definition export_entry :: "LocationState \<Rightarrow> ExportedLocation" where
  "export_entry state =
     \<lparr>ex_location_id = ls_location_id state,
      ex_name = ls_name state,
      ex_description = ls_description state,
      ex_valuation_profile = ls_valuation_profile state,
      ex_saturation = ls_saturation state,
      ex_traces =
        map (\<lambda>t. \<lparr>et_key = key t, et_channel = channel t, et_accumulated = ti_accumulated t,
                   et_decayed_value = decayed_value t, et_event_count = ti_event_count t,
                   et_is_scar = ti_is_scar t\<rparr>) (traces state),
      ex_affordances =
        map (\<lambda>a. \<lparr>ea_type = ai_affordance_type a, ea_enabled = ai_enabled a,
                   ea_mechanical_handle = ai_mechanical_handle a\<rparr>) (ls_affordances state)\<rparr>"

text \<open>The loop of \<^verbatim>\<open>export_world_state\<close> over the items of the store. Every call of
  \<^verbatim>\<open>get_location_state\<close> reads the clock: \<open>clock loc_id\<close> is the reading of the call for
  \<open>loc_id\<close>.\<close>

fun export_loop ::
  "env \<Rightarrow> store \<Rightarrow> (string \<Rightarrow> real) \<Rightarrow> (string \<times> Location) list
     \<Rightarrow> (string, ExportedLocation) dict \<Rightarrow> (string, ExportedLocation) dict" where
  "export_loop E S clock [] export = export"
| "export_loop E S clock ((loc_id, location) # rest) export =
     (case get_location_state E S
             \<lparr>lq_location_id = loc_id, include_traces = True, include_affordances = True,
              decay_to_now = True\<rparr> (clock loc_id) of
        None \<Rightarrow> export_loop E S clock rest export
      | Some state \<Rightarrow> export_loop E S clock rest (AList.update loc_id (export_entry state) export))"

definition export_world_state ::
  "env \<Rightarrow> store \<Rightarrow> (string \<Rightarrow> real) \<Rightarrow> (string, ExportedLocation) dict" where
  "export_world_state E S clock = export_loop E S clock S []"

section \<open>The tools of \<^verbatim>\<open>src/mcp/tools.py\<close>\<close>

text \<open>A tool answers with a dictionary. \<open>Inl msg\<close> is the dictionary
  \<^verbatim>\<open>{"error": msg}\<close>, \<open>Inr r\<close> the dictionary of a result \<open>r\<close>.\<close>

definition not_found :: "string \<Rightarrow> string" where
  "not_found lid = ''Location '' @ [CHR 0x27] @ lid @ [CHR 0x27] @ '' not found''"

record ValuationExplanation =
  ve_event_type :: string
  weight :: real
  match_type :: string
  ve_category :: "string option"
  explanation :: string

definition explain_valuation :: "store \<Rightarrow> string \<Rightarrow> string \<Rightarrow> string + ValuationExplanation" where
  "explain_valuation S lid event_type =
     (case get_location S lid of
        None \<Rightarrow> Inl (not_found lid)
      | Some location \<Rightarrow>
          (let profile = valuation_profile location in
           case map_of profile event_type of
             Some w \<Rightarrow>
               Inr \<lparr>ve_event_type = event_type, weight = w, match_type = ''exact'',
                    ve_category = None,
                    explanation = ''Location has explicit valuation for '' @ [CHR 0x27]
                      @ event_type @ [CHR 0x27]\<rparr>
           | None \<Rightarrow>
               (let category = category_of event_type in
                case map_of profile category of
                  Some w \<Rightarrow>
                    Inr \<lparr>ve_event_type = event_type, weight = w, match_type = ''category'',
                         ve_category = Some category,
                         explanation = ''No exact match; using category '' @ [CHR 0x27]
                           @ category @ [CHR 0x27] @ '' valuation''\<rparr>
                | None \<Rightarrow>
                    Inr \<lparr>ve_event_type = event_type, weight = 0.0, match_type = ''default'',
                         ve_category = None,
                         explanation = ''No valuation found; neutral (0.0) applied''\<rparr>)))"

text \<open>The branch \<^verbatim>\<open>explain_valuation\<close> of \<^verbatim>\<open>_handle_tool_call\<close> in
  \<^verbatim>\<open>src/aws/lambda_handler.py\<close> builds the same dictionary without the explanation, before
  it is printed as JSON: event type, weight, match type and, for a category match, the
  category. \<open>Inl\<close> carries the text of the answer for an unknown location.\<close>

definition handle_explain_valuation ::
  "store \<Rightarrow> string \<Rightarrow> string \<Rightarrow> string + string \<times> real \<times> string \<times> string option" where
  "handle_explain_valuation S lid event_type =
     (case get_location S lid of
        None \<Rightarrow> Inl (''Location not found: '' @ lid)
      | Some location \<Rightarrow>
          (let profile = valuation_profile location in
           case map_of profile event_type of
             Some w \<Rightarrow> Inr (event_type, w, ''exact'', None)
           | None \<Rightarrow>
               (let category = category_of event_type in
                case map_of profile category of
                  Some w \<Rightarrow> Inr (event_type, w, ''category'', Some category)
                | None \<Rightarrow> Inr (event_type, 0.0, ''default'', None))))"

definition tool_get_location_state ::
  "env \<Rightarrow> store \<Rightarrow> string \<Rightarrow> bool \<Rightarrow> bool \<Rightarrow> real \<Rightarrow> string + LocationState" where
  "tool_get_location_state E S lid inc_traces inc_affordances now =
     (case get_location_state E S
             \<lparr>lq_location_id = lid, include_traces = inc_traces,
              include_affordances = inc_affordances, decay_to_now = True\<rparr> now of
        None \<Rightarrow> Inl (not_found lid)
      | Some r \<Rightarrow> Inr r)"

definition tool_compute_affinity ::
  "env \<Rightarrow> store \<Rightarrow> string \<Rightarrow> string \<Rightarrow> string list \<Rightarrow> real \<Rightarrow> string + AffinityScore" where
  "tool_compute_affinity E S lid actor tags now =
     (case compute_affinity_for_actor E S lid actor (set tags) now of
        None \<Rightarrow> Inl (not_found lid)
      | Some r \<Rightarrow> Inr r)"

definition tool_predict_action ::
  "env \<Rightarrow> store \<Rightarrow> ActionPrediction \<Rightarrow> real \<times> real \<times> real
     \<Rightarrow> (string + ActionConsequence) \<times> store" where
  "tool_predict_action E S prediction clock =
     (case predict_action_consequence E S prediction clock of
        (None, S') \<Rightarrow> (Inl (not_found (ap_location_id prediction)), S')
      | (Some r, S') \<Rightarrow> (Inr r, S'))"

text \<open>The tool \<^verbatim>\<open>get_world_history\<close> catches no exception: the \<^verbatim>\<open>OverflowError\<close> of the
  adapter leaves the tool (the outer \<open>Inl\<close>).\<close>

definition tool_get_world_history ::
  "env \<Rightarrow> store \<Rightarrow> string \<Rightarrow> int \<Rightarrow> real \<Rightarrow> error + (string + WorldHistorySummary)" where
  "tool_get_world_history E S lid days now =
     (case get_world_history_summary E S lid days now of
        Inl e \<Rightarrow> Inl e
      | Inr None \<Rightarrow> Inr (Inl (not_found lid))
      | Inr (Some r) \<Rightarrow> Inr (Inr r))"

text \<open>\<^verbatim>\<open>DecayChannel(channel)\<close> raises \<^verbatim>\<open>ValueError\<close> for any other string.\<close>

definition parse_channel :: "string \<Rightarrow> DecayChannel option" where
  "parse_channel c =
     (if c = ''personal'' then Some PERSONAL
      else if c = ''group'' then Some GROUP
      else if c = ''behavior'' then Some BEHAVIOR
      else None)"

text \<open>The tool \<^verbatim>\<open>query_traces\<close> answers with a list of dictionaries. The only exception it
  catches is the \<^verbatim>\<open>ValueError\<close> of the channel; an exception of the adapter leaves the tool
  (the outer \<open>Inl\<close>).\<close>

definition tool_query_traces ::
  "env \<Rightarrow> store \<Rightarrow> string option \<Rightarrow> string option \<Rightarrow> string option \<Rightarrow> string option
     \<Rightarrow> pyfloat \<Rightarrow> int \<Rightarrow> real \<Rightarrow> error + (string + TraceInfo) list" where
  "tool_query_traces E S lid actor event_type chan min_int lmt now =
     (let parsed = (case chan of
                      None \<Rightarrow> Inr None
                    | Some c \<Rightarrow>
                        if c = [] then Inr None
                        else (case parse_channel c of
                                None \<Rightarrow> Inl (''Invalid channel '' @ [CHR 0x27] @ c @ [CHR 0x27]
                                         @ ''. Use: personal, group, behavior'')
                              | Some ch \<Rightarrow> Inr (Some ch)))
      in case parsed of
           Inl msg \<Rightarrow> Inr [Inl msg]
         | Inr channel_enum \<Rightarrow>
             (case query_traces E S
                     \<lparr>tq_location_id = lid, tq_actor_id = actor, tq_event_type = event_type,
                      tq_channel = channel_enum, min_intensity = min_int, limit = lmt\<rparr> now of
                Inl e \<Rightarrow> Inl e
              | Inr results \<Rightarrow> Inr (map Inr results)))"

section \<open>A sample world\<close>

text \<open>
  To run the model on concrete inputs, the collaborators need values. The package
  \<^verbatim>\<open>world.affinity\<close> is not among the sources, so the following definitions follow the
  specification's sections 4.1 to 4.5 and 4.7. They are used for concrete runs only: the
  general theorems quantify over every environment.
\<close>

text \<open>Modelled from the spec: \<^verbatim>\<open>world.affinity.computation.get_decayed_value\<close> is missing.
  A scar keeps its accumulated value; any other record decays exponentially with the
  half-life.\<close>

definition spec_decayed_value :: "TraceRecord \<Rightarrow> real \<Rightarrow> real \<Rightarrow> real" where
  "spec_decayed_value trace hl now =
     (if is_scar trace then accumulated trace
      else accumulated trace * 2 powr (- (now - last_updated trace) / hl))"

text \<open>Modelled from the spec: the valuation weight used by the missing scoring functions
  resolves by exact event type, then by category, then to 0.\<close>

definition valuation_weight :: "(string, real) dict \<Rightarrow> string \<Rightarrow> real" where
  "valuation_weight profile event_type =
     (case map_of profile event_type of
        Some w \<Rightarrow> w
      | None \<Rightarrow> dict_get profile (category_of event_type) 0)"

text \<open>Modelled from the spec: \<^verbatim>\<open>score_personal\<close>, \<^verbatim>\<open>score_group\<close> and \<^verbatim>\<open>score_behavior\<close>
  of \<^verbatim>\<open>world.affinity.computation\<close> are missing. Each sums decayed value times valuation
  weight over the traces of its channel that match the actor, the tags, or all of them.\<close>

definition spec_score_personal ::
  "(string \<times> string, TraceRecord) dict \<Rightarrow> string \<Rightarrow> real \<Rightarrow> (string, real) dict \<Rightarrow> real \<Rightarrow> real" where
  "spec_score_personal trs actor hl profile now =
     sum_list (map (\<lambda>(k, trace). spec_decayed_value trace hl now * valuation_weight profile (snd k))
                 (filter (\<lambda>(k, trace). fst k = actor) trs))"

text \<open>Modelled from the spec: \<^verbatim>\<open>score_group\<close> is missing. The same sum over the group
  traces whose tag is one of the actor's tags.\<close>

definition spec_score_group ::
  "(string \<times> string, TraceRecord) dict \<Rightarrow> string set \<Rightarrow> real \<Rightarrow> (string, real) dict \<Rightarrow> real \<Rightarrow> real" where
  "spec_score_group trs tags hl profile now =
     sum_list (map (\<lambda>(k, trace). spec_decayed_value trace hl now * valuation_weight profile (snd k))
                 (filter (\<lambda>(k, trace). fst k \<in> tags) trs))"

text \<open>Modelled from the spec: \<^verbatim>\<open>score_behavior\<close> is missing. The same sum over all
  behavior traces.\<close>

definition spec_score_behavior ::
  "(string, TraceRecord) dict \<Rightarrow> real \<Rightarrow> (string, real) dict \<Rightarrow> real \<Rightarrow> real" where
  "spec_score_behavior trs hl profile now =
     sum_list (map (\<lambda>(k, trace). spec_decayed_value trace hl now * valuation_weight profile k) trs)"

text \<open>Modelled from the spec: \<^verbatim>\<open>get_threshold_label\<close> is missing. The five labels are
  ordered and monotonic in the total; the specification leaves the boundaries to the
  configuration, and the four numbers here are sample values.\<close>

definition spec_threshold_label :: "real \<Rightarrow> string" where
  "spec_threshold_label t =
     (if t < - 0.6 then ''hostile'' else if t < - 0.2 then ''wary''
      else if t \<le> 0.2 then ''neutral'' else if t \<le> 0.6 then ''warm'' else ''favorable'')"

text \<open>Modelled from the spec: \<^verbatim>\<open>world.affinity.events.log_event\<close> is missing. For the
  personal key, for the group key of every tag and for the behavior key it creates the
  record if absent, and otherwise adds the intensity, counts the event and sets the time
  of the last update. Saturation clamping and scar promotion are left out, as the
  specification does not define them.\<close>

definition upsert :: "('k, TraceRecord) dict \<Rightarrow> 'k \<Rightarrow> real \<Rightarrow> real \<Rightarrow> ('k, TraceRecord) dict" where
  "upsert trs k intensity now =
     (case map_of trs k of
        None \<Rightarrow> AList.update k \<lparr>accumulated = intensity, last_updated = now, event_count = 1,
                                   is_scar = False\<rparr> trs
      | Some trace \<Rightarrow>
          AList.update k (trace\<lparr>accumulated := accumulated trace + intensity,
                                 event_count := event_count trace + 1,
                                 last_updated := now\<rparr>) trs)"

text \<open>Modelled from the spec: \<^verbatim>\<open>log_event\<close> is missing. It applies the update above to
  the three trace dictionaries of the location; the tags are taken in sorted order.\<close>

definition spec_log_event :: "Location \<Rightarrow> AffinityEvent \<Rightarrow> real \<Rightarrow> Location" where
  "spec_log_event location event now =
     location\<lparr>personal_traces :=
                 upsert (personal_traces location) (ev_actor_id event, ev_event_type event)
                   (ev_intensity event) now,
               group_traces :=
                 foldl (\<lambda>trs tag. upsert trs (tag, ev_event_type event) (ev_intensity event) now)
                   (group_traces location) (sorted_list_of_set (ev_actor_tags event)),
               behavior_traces :=
                 upsert (behavior_traces location) (ev_event_type event) (ev_intensity event) now\<rparr>"

text \<open>\<^verbatim>\<open>str.lower\<close> on ASCII letters, for the sample environment.\<close>

definition lower_char :: "char \<Rightarrow> char" where
  "lower_char c = (if CHR ''A'' \<le> c \<and> c \<le> CHR ''Z'' then char_of (of_char c + (32::nat)) else c)"

definition ascii_lower :: "string \<Rightarrow> string" where
  "ascii_lower s = map lower_char s"

text \<open>Modelled from the spec: \<^verbatim>\<open>get_config\<close> and \<^verbatim>\<open>is_affordance_enabled\<close> are missing. The
  half-lives (in days) and the weights are sample values; the registry is a dictionary
  from affordance type to a flag, and a type it does not list counts as disabled here.
  The sample environment computes with exact arithmetic, enumerates a set in sorted order
  and lowers ASCII letters.\<close>

definition sample_env :: "(string, bool) dict \<Rightarrow> env" where
  "sample_env registry =
     \<lparr>half_lives_location = \<lparr>personal = 7, group = 30, behavior = 14\<rparr>,
      channel_weights = \<lparr>personal = 0.5, group = 0.3, behavior = 0.2\<rparr>,
      get_decayed_value = spec_decayed_value,
      score_personal = spec_score_personal,
      score_group = spec_score_group,
      score_behavior = spec_score_behavior,
      get_threshold_label = spec_threshold_label,
      log_event = spec_log_event,
      is_affordance_enabled = (\<lambda>t. dict_get registry t False),
      set_to_list = sorted_list_of_set,
      float_add = (+),
      float_sub = (-),
      float_mul = (*),
      float_of_int = real_of_int,
      str_lower = ascii_lower\<rparr>"

text \<open>A location with the valuation profile and the tells of the specification's examples.\<close>

definition woods :: Location where
  "woods =
     \<lparr>location_id = ''whispering_woods'', name = ''Whispering Woods'',
      description = ''An old forest'',
      valuation_profile = [(''harm'', - 0.3), (''harm.fire'', - 0.8)],
      personal_traces =
        [((''alice'', ''harm.fire''),
          \<lparr>accumulated = 2, last_updated = 100, event_count = 3, is_scar = True\<rparr>)],
      group_traces = [],
      behavior_traces =
        [(''harm.fire'', \<lparr>accumulated = 1.2, last_updated = 100, event_count = 3, is_scar = True\<rparr>)],
      saturation = \<lparr>personal = 0, group = 0, behavior = 0\<rparr>,
      affordances =
        [\<lparr>affordance_type = ''pathing'', enabled = True, mechanical_handle = None,
          severity_clamp_hostile = 0.5, severity_clamp_favorable = - 0.3,
          cooldown_seconds = 3600, tells_hostile = [''the woods creak''],
          tells_favorable = [''the woods hum'']\<rparr>],
      cooldowns = [], last_tick = 0\<rparr>"

definition glade :: Location where
  "glade =
     \<lparr>location_id = ''sunlit_glade'', name = ''Sunlit Glade'',
      description = ''A clearing'',
      valuation_profile = [(''offer'', 0.9)],
      personal_traces =
        [((''bob'', ''offer.gift''),
          \<lparr>accumulated = 2, last_updated = 100, event_count = 2, is_scar = True\<rparr>)],
      group_traces = [],
      behavior_traces =
        [(''offer.gift'', \<lparr>accumulated = 0.6, last_updated = 100, event_count = 2, is_scar = True\<rparr>)],
      saturation = \<lparr>personal = 0, group = 0, behavior = 0\<rparr>,
      affordances =
        [\<lparr>affordance_type = ''ambient_messaging'', enabled = True, mechanical_handle = None,
          severity_clamp_hostile = 0.5, severity_clamp_favorable = - 0.3,
          cooldown_seconds = 3600, tells_hostile = [''the glade darkens''],
          tells_favorable = [''the glade glows'']\<rparr>],
      cooldowns = [], last_tick = 0\<rparr>"

definition world_store :: store where
  "world_store = [(''whispering_woods'', woods), (''sunlit_glade'', glade)]"

definition alice_burns :: ActionPrediction where
  "alice_burns =
     \<lparr>ap_actor_id = ''alice'', ap_actor_tags = [], ap_location_id = ''whispering_woods'',
      ap_event_type = ''harm.fire'', ap_intensity = 0.5\<rparr>"

definition bob_gives :: ActionPrediction where
  "bob_gives =
     \<lparr>ap_actor_id = ''bob'', ap_actor_tags = [], ap_location_id = ''sunlit_glade'',
      ap_event_type = ''offer.gift'', ap_intensity = 0.5\<rparr>"

definition all_traces_query :: "int \<Rightarrow> TraceQuery" where
  "all_traces_query n =
     \<lparr>tq_location_id = None, tq_actor_id = None, tq_event_type = None, tq_channel = None,
      min_intensity = Float 1, limit = n\<rparr>"

section \<open>The specification's notions\<close>

text \<open>An optional filter of a trace query restricts nothing when it is absent or empty,
  and otherwise admits the one value it names.\<close>

definition admits :: "string option \<Rightarrow> string \<Rightarrow> bool" where
  "admits f v = (f = None \<or> f = Some [] \<or> f = Some v)"

text \<open>The traces of one location that match a query, stated on the stored traces as
  section 4.4 of the specification words it: the channel is the queried one if one is
  queried, the actor filter applies to the personal channel only, the event type filter
  to every channel, and the value decayed to the time of the query is at least
  \<^verbatim>\<open>min_intensity\<close>. They are listed channel by channel in the order of the stored traces.\<close>

definition spec_matches :: "env \<Rightarrow> TraceQuery \<Rightarrow> real \<Rightarrow> Location \<Rightarrow> TraceInfo list" where
  "spec_matches E q now location =
     map (\<lambda>(k, trace).
            trace_info (pair_key k) ''personal'' (get_decayed_value E trace (personal_hl E) now) trace)
       (filter (\<lambda>(k, trace).
                  (tq_channel q = None \<or> tq_channel q = Some PERSONAL)
                  \<and> admits (tq_actor_id q) (fst k) \<and> admits (tq_event_type q) (snd k)
                  \<and> at_least (get_decayed_value E trace (personal_hl E) now) (min_intensity q))
          (personal_traces location))
   @ map (\<lambda>(k, trace).
            trace_info (pair_key k) ''group'' (get_decayed_value E trace (group_hl E) now) trace)
       (filter (\<lambda>(k, trace).
                  (tq_channel q = None \<or> tq_channel q = Some GROUP)
                  \<and> admits (tq_event_type q) (snd k)
                  \<and> at_least (get_decayed_value E trace (group_hl E) now) (min_intensity q))
          (group_traces location))
   @ map (\<lambda>(k, trace).
            trace_info k ''behavior'' (get_decayed_value E trace (behavior_hl E) now) trace)
       (filter (\<lambda>(k, trace).
                  (tq_channel q = None \<or> tq_channel q = Some BEHAVIOR)
                  \<and> admits (tq_event_type q) k
                  \<and> at_least (get_decayed_value E trace (behavior_hl E) now) (min_intensity q))
          (behavior_traces location))"

text \<open>The locations a query scans: the one stored under the id of the location filter,
  or every stored location when that filter is absent or empty.\<close>

definition spec_scanned :: "store \<Rightarrow> TraceQuery \<Rightarrow> Location list" where
  "spec_scanned S q =
     (case tq_location_id q of
        None \<Rightarrow> map snd S
      | Some lid \<Rightarrow>
          if lid = [] then map snd S
          else (case map_of S lid of None \<Rightarrow> [] | Some location \<Rightarrow> [location]))"

text \<open>All matches of a query over the locations it scans.\<close>

definition spec_all_matches :: "env \<Rightarrow> store \<Rightarrow> TraceQuery \<Rightarrow> real \<Rightarrow> TraceInfo list" where
  "spec_all_matches E S q now = concat (map (spec_matches E q now) (spec_scanned S q))"

text \<open>The total of a category over the behavior traces inside the window, as section 4.8
  of the specification words it: the accumulated values of the traces updated at or after
  the cutoff whose event type has that category before its first dot, added up from 0 in
  the order of the traces with the addition of floats.\<close>

definition spec_window_total :: "env \<Rightarrow> real \<Rightarrow> (string, TraceRecord) dict \<Rightarrow> string \<Rightarrow> real" where
  "spec_window_total E cutoff trs c =
     foldl (float_add E) 0
       (map (\<lambda>(event_type, trace). accumulated trace)
          (filter (\<lambda>(event_type, trace).
                     cutoff \<le> last_updated trace \<and> takeWhile (\<lambda>x. x \<noteq> CHR ''.'') event_type = c)
             trs))"

text \<open>The decision table of the mood in the specification's words.\<close>

definition spec_mood :: "real \<Rightarrow> real \<Rightarrow> real \<Rightarrow> string" where
  "spec_mood harm offer create =
     (if harm > 0.5 then (if harm \<ge> 1.0 then ''violent'' else ''troubled'')
      else if offer > 0.3 \<or> create > 0.3 then (if offer > 0.5 then ''sacred'' else ''peaceful'')
      else ''peaceful'')"

text \<open>The dominant-event candidate of a personal trace.\<close>

definition dominant_event :: "(string \<times> string) \<times> TraceRecord \<Rightarrow> DominantEvent" where
  "dominant_event item =
     \<lparr>de_event_type = snd (fst item), de_actor = fst (fst item),
      de_intensity = accumulated (snd item), de_count = event_count (snd item)\<rparr>"

text \<open>The window of the history in the specification's words: the float
  \<open>now - days * 86400\<close>.\<close>

definition spec_cutoff :: "env \<Rightarrow> real \<Rightarrow> int \<Rightarrow> real" where
  "spec_cutoff E now days = float_sub E now (float_of_int E (days * 86400))"

text \<open>A trace query with the threshold \<^verbatim>\<open>NaN\<close>, and a window beyond the range of the
  floats.\<close>

definition nan_query :: TraceQuery where
  "nan_query =
     \<lparr>tq_location_id = Some ''sunlit_glade'', tq_actor_id = None, tq_event_type = None,
      tq_channel = Some BEHAVIOR, min_intensity = NaN, limit = 10\<rparr>"

definition huge_window :: int where
  "huge_window = 10 ^ 305"

section \<open>Valuation resolution\<close>

lemmas sample_defs =
  sample_env_def spec_decayed_value_def valuation_weight_def spec_score_personal_def
  spec_score_group_def spec_score_behavior_def spec_threshold_label_def upsert_def
  spec_log_event_def woods_def glade_def world_store_def alice_burns_def bob_gives_def
  dict_get_def category_of_def personal_hl_def group_hl_def behavior_hl_def

lemma split_first_takeWhile: "split_first d s = takeWhile (\<lambda>c. c \<noteq> d) s"
  by (induction s) auto

text \<open>
  Claim C5. For an existing location, \<^verbatim>\<open>explain_valuation\<close> resolves in three tiers: an
  exact entry of the profile for the event type gives that weight with match type
  \<^verbatim>\<open>exact\<close>; otherwise an entry for the category, the part of the event type before its
  first dot, gives that weight with match type \<^verbatim>\<open>category\<close>; otherwise the weight is 0
  with match type \<^verbatim>\<open>default\<close>.
\<close>

theorem explain_valuation_three_tiers:
  assumes "get_location S lid = Some location"
  shows "(\<forall>w. map_of (valuation_profile location) event_type = Some w \<longrightarrow>
            (\<exists>r. explain_valuation S lid event_type = Inr r \<and> weight r = w
                 \<and> match_type r = ''exact'')
          \<and> handle_explain_valuation S lid event_type = Inr (event_type, w, ''exact'', None))
       \<and> (\<forall>w. map_of (valuation_profile location) event_type = None
              \<and> map_of (valuation_profile location)
                   (takeWhile (\<lambda>c. c \<noteq> CHR ''.'') event_type) = Some w \<longrightarrow>
            (\<exists>r. explain_valuation S lid event_type = Inr r \<and> weight r = w
                 \<and> match_type r = ''category'')
          \<and> handle_explain_valuation S lid event_type
               = Inr (event_type, w, ''category'', Some (takeWhile (\<lambda>c. c \<noteq> CHR ''.'') event_type)))
       \<and> (map_of (valuation_profile location) event_type = None
              \<and> map_of (valuation_profile location)
                   (takeWhile (\<lambda>c. c \<noteq> CHR ''.'') event_type) = None \<longrightarrow>
            (\<exists>r. explain_valuation S lid event_type = Inr r \<and> weight r = 0
                 \<and> match_type r = ''default'')
          \<and> handle_explain_valuation S lid event_type = Inr (event_type, 0, ''default'', None))"
  using assms
  by (simp add: explain_valuation_def handle_explain_valuation_def category_of_def
      split_first_takeWhile Let_def)

theorem explain_valuation_three_tiers_witness:
  "get_location world_store ''whispering_woods'' = Some woods
   \<and> (\<exists>r. explain_valuation world_store ''whispering_woods'' ''harm.fire'' = Inr r
          \<and> weight r = - 0.8 \<and> match_type r = ''exact'')
   \<and> (\<exists>r. explain_valuation world_store ''whispering_woods'' ''harm.sword'' = Inr r
          \<and> weight r = - 0.3 \<and> match_type r = ''category'')
   \<and> handle_explain_valuation world_store ''whispering_woods'' ''harm.sword''
       = Inr (''harm.sword'', - 0.3, ''category'', Some ''harm'')
   \<and> (\<exists>r. explain_valuation world_store ''whispering_woods'' ''offer.gift'' = Inr r
          \<and> weight r = 0 \<and> match_type r = ''default'')"
proof -
  have loc: "get_location world_store ''whispering_woods'' = Some woods"
    by (simp add: get_location_def world_store_def)
  have prof: "valuation_profile woods = [(''harm'', - 0.3), (''harm.fire'', - 0.8)]"
    by (simp add: woods_def)
  show ?thesis
    using loc explain_valuation_three_tiers [OF loc, of "''harm.fire''"]
      explain_valuation_three_tiers [OF loc, of "''harm.sword''"]
      explain_valuation_three_tiers [OF loc, of "''offer.gift''"]
    by (simp add: prof)
qed

section \<open>Prediction does not change the store\<close>

lemma predict_store: "snd (predict_action_consequence E S p clock) = S"
  by (simp add: predict_action_consequence_def Let_def AList.update_triv split: option.splits)

text \<open>
  Claim C1. A call of \<^verbatim>\<open>predict_action_consequence\<close> leaves the store of locations as it
  found it, for every prediction and every reading of the clock; so the state that
  \<^verbatim>\<open>get_location_state\<close> reports for a query at a given time is the same before and after
  the call (traces, cooldowns, saturation and affordances included).
\<close>

theorem predict_leaves_state_unchanged:
  "snd (predict_action_consequence E S p clock) = S
   \<and> get_location_state E (snd (predict_action_consequence E S p clock)) q now
       = get_location_state E S q now"
  by (simp add: predict_store)

theorem predict_leaves_state_unchanged_witness:
  "map_of world_store (ap_location_id alice_burns) = Some woods
   \<and> snd (predict_action_consequence (sample_env []) world_store alice_burns (100, 100, 100))
       = world_store"
  using predict_leaves_state_unchanged [of "sample_env []" world_store alice_burns "(100, 100, 100)"]
  by (simp add: world_store_def alice_burns_def)

section \<open>Unknown locations\<close>

lemma absent_iff: "map_of S lid = None \<longleftrightarrow> lid \<notin> set (list_locations S)"
  by (simp add: list_locations_def map_of_eq_None_iff)

text \<open>
  Claim C7, as amended. \<^verbatim>\<open>get_location_state\<close>, \<^verbatim>\<open>compute_affinity_for_actor\<close>,
  \<^verbatim>\<open>predict_action_consequence\<close> and \<^verbatim>\<open>get_world_history_summary\<close> return \<^verbatim>\<open>None\<close>, which
  their tools render as the error \<^verbatim>\<open>Location '...' not found\<close>, when the location id is not
  a key of the store, and never for a key of the store. For a key of the store the first
  three return a result, which the tool passes on, and so does
  \<^verbatim>\<open>get_world_history_summary\<close> when \<open>days * 86400\<close> is in the range of the floats.
\<close>

theorem not_found_iff_absent:
  "(lid \<notin> set (list_locations S) \<longrightarrow>
      get_location_state E S \<lparr>lq_location_id = lid, include_traces = it, include_affordances = ia,
        decay_to_now = d\<rparr> now = None
    \<and> tool_get_location_state E S lid it ia now = Inl (not_found lid)
    \<and> compute_affinity_for_actor E S lid actor (set tags) now = None
    \<and> tool_compute_affinity E S lid actor tags now = Inl (not_found lid)
    \<and> fst (predict_action_consequence E S (p\<lparr>ap_location_id := lid\<rparr>) clock) = None
    \<and> fst (tool_predict_action E S (p\<lparr>ap_location_id := lid\<rparr>) clock) = Inl (not_found lid)
    \<and> get_world_history_summary E S lid days now = Inr None
    \<and> tool_get_world_history E S lid days now = Inr (Inl (not_found lid)))
 \<and> (lid \<in> set (list_locations S) \<longrightarrow>
      (\<exists>r. get_location_state E S \<lparr>lq_location_id = lid, include_traces = it,
              include_affordances = ia, decay_to_now = d\<rparr> now = Some r)
    \<and> (\<exists>r. tool_get_location_state E S lid it ia now = Inr r)
    \<and> (\<exists>r. compute_affinity_for_actor E S lid actor (set tags) now = Some r
           \<and> tool_compute_affinity E S lid actor tags now = Inr r)
    \<and> (\<exists>r. fst (predict_action_consequence E S (p\<lparr>ap_location_id := lid\<rparr>) clock) = Some r
           \<and> fst (tool_predict_action E S (p\<lparr>ap_location_id := lid\<rparr>) clock) = Inr r)
    \<and> get_world_history_summary E S lid days now \<noteq> Inr None
    \<and> (\<bar>days * 86400\<bar> < 2 ^ 1024 - 2 ^ 970 \<longrightarrow>
          (\<exists>r. get_world_history_summary E S lid days now = Inr (Some r)
               \<and> tool_get_world_history E S lid days now = Inr (Inr r))))"
proof (cases "map_of S lid")
  case None
  then show ?thesis
    by (simp add: absent_iff [symmetric] get_location_state_def compute_affinity_for_actor_def
        predict_action_consequence_def get_world_history_summary_def
        tool_get_location_state_def tool_compute_affinity_def tool_predict_action_def
        tool_get_world_history_def)
next
  case (Some location)
  then have "lid \<in> set (list_locations S)"
    using absent_iff [of S lid] by simp
  with Some show ?thesis
    by (simp add: get_location_state_def compute_affinity_for_actor_def
        predict_action_consequence_def get_world_history_summary_def Let_def
        history_cutoff_def int_to_float_def
        tool_get_location_state_def tool_compute_affinity_def tool_predict_action_def
        tool_get_world_history_def)
qed

theorem not_found_iff_absent_witness:
  "''nowhere'' \<notin> set (list_locations world_store)
   \<and> get_world_history_summary (sample_env []) world_store ''nowhere'' 30 200 = Inr None
   \<and> tool_get_world_history (sample_env []) world_store ''nowhere'' 30 200
       = Inr (Inl (not_found ''nowhere''))
   \<and> ''sunlit_glade'' \<in> set (list_locations world_store)
   \<and> \<bar>30 * 86400 :: int\<bar> < 2 ^ 1024 - 2 ^ 970
   \<and> (\<exists>r. get_world_history_summary (sample_env []) world_store ''sunlit_glade'' 30 200
            = Inr (Some r)
          \<and> tool_get_world_history (sample_env []) world_store ''sunlit_glade'' 30 200
              = Inr (Inr r))"
proof -
  have a: "''nowhere'' \<notin> set (list_locations world_store)"
    by (simp add: list_locations_def world_store_def)
  have b: "''sunlit_glade'' \<in> set (list_locations world_store)"
    by (simp add: list_locations_def world_store_def)
  have c: "\<bar>30 * 86400 :: int\<bar> < 2 ^ 1024 - 2 ^ 970"
    by simp
  show ?thesis
    using a b c
      not_found_iff_absent [of "''nowhere''" world_store "sample_env []" True True True 200
        "''bob''" "[]" bob_gives "(200, 200, 200)" 30]
      not_found_iff_absent [of "''sunlit_glade''" world_store "sample_env []" True True True 200
        "''bob''" "[]" bob_gives "(200, 200, 200)" 30]
    by simp
qed

text \<open>
  The claim as stated also promises a result for every stored location. A window of
  \<open>10^305\<close> days refutes it: the product with 86400 is an int beyond the range of the
  floats, its subtraction from the clock raises \<^verbatim>\<open>OverflowError\<close>, and the tool does not
  catch it.
\<close>

theorem history_overflow_on_stored_location:
  "''sunlit_glade'' \<in> set (list_locations world_store)
   \<and> get_world_history_summary (sample_env []) world_store ''sunlit_glade'' huge_window 200
       = Inl OverflowError
   \<and> tool_get_world_history (sample_env []) world_store ''sunlit_glade'' huge_window 200
       = Inl OverflowError"
  by (simp add: list_locations_def world_store_def get_world_history_summary_def
      history_cutoff_def int_to_float_def tool_get_world_history_def huge_window_def)

section \<open>The keys of the export\<close>

lemma export_loop_keys:
  "set (map fst xs) \<subseteq> set (map fst S) \<Longrightarrow>
   set (map fst (export_loop E S clock xs acc)) = set (map fst acc) \<union> set (map fst xs)"
proof (induction xs arbitrary: acc)
  case Nil
  then show ?case by simp
next
  case (Cons x xs)
  obtain loc_id location where x: "x = (loc_id, location)" by (cases x)
  from Cons.prems x have "loc_id \<in> fst ` set S" by auto
  then obtain l where l: "map_of S loc_id = Some l"
    by (metis map_of_eq_None_iff not_None_eq)
  from Cons.prems have sub: "set (map fst xs) \<subseteq> set (map fst S)" by auto
  show ?case
    using Cons.IH [OF sub] l x
    by (auto simp: get_location_state_def AList.dom_update)
qed

lemma export_loop_distinct:
  "distinct (map fst acc) \<Longrightarrow> distinct (map fst (export_loop E S clock xs acc))"
proof (induction xs arbitrary: acc)
  case Nil
  then show ?case by simp
next
  case (Cons x xs)
  obtain loc_id location where x: "x = (loc_id, location)" by (cases x)
  show ?case
    using Cons x by (auto simp: AList.distinct_update split: option.splits)
qed

text \<open>
  Claim C10. The keys of the dictionary that \<^verbatim>\<open>export_world_state\<close> returns are the ids
  that \<^verbatim>\<open>list_locations\<close> returns, and no key occurs twice.
\<close>

theorem export_keys_are_locations:
  "set (map fst (export_world_state E S clock)) = set (list_locations S)
   \<and> distinct (map fst (export_world_state E S clock))"
  using export_loop_keys [of S S E clock "[]"] export_loop_distinct [of "[]" E S clock S]
  by (simp add: export_world_state_def list_locations_def)

theorem export_keys_are_locations_witness:
  "set (map fst (export_world_state (sample_env []) world_store (\<lambda>_. 100)))
     = {''whispering_woods'', ''sunlit_glade''}
   \<and> list_locations world_store = [''whispering_woods'', ''sunlit_glade'']"
  using export_keys_are_locations [of "sample_env []" world_store "\<lambda>_. 100"]
  by (simp add: list_locations_def world_store_def)

section \<open>Affordances in a prediction\<close>

lemma hostile_loop_eq:
  "hostile_loop affs triggered hints =
     (triggered @ map affordance_type (filter enabled affs),
      hints @ concat (map (\<lambda>aff. take 1 (tells_hostile aff)) (filter enabled affs)))"
  by (induction affs arbitrary: triggered hints) (auto split: list.splits)

lemma favorable_loop_eq:
  "favorable_loop affs hints =
     hints @ concat (map (\<lambda>aff. take 1 (tells_favorable aff)) (filter enabled affs))"
  by (induction affs arbitrary: hints) (auto split: list.splits)

lemma first_tell_mem:
  "aff \<in> set affs \<Longrightarrow> enabled aff \<Longrightarrow> tells aff = t # ts \<Longrightarrow>
   t \<in> set (concat (map (\<lambda>aff. take 1 (tells aff)) (filter enabled affs)))"
  by (induction affs) auto

lemma predict_present:
  assumes "map_of S (ap_location_id p) = Some location"
  shows "\<exists>r a. predict_action_consequence E S p clock = (Some r, S)
           \<and> affinity_after r = Some a
           \<and> (triggered_affordances r, narrative_hints r)
               = affordance_effects (Some a) (affordances location)"
  using assms
  by (simp add: predict_action_consequence_def Let_def AList.update_triv
      compute_affinity_for_actor_def AList.update_conv')

text \<open>
  Claim C4. A prediction on a stored location returns a consequence whose lists depend on
  the label of the affinity after the event. For \<^verbatim>\<open>hostile\<close> or \<^verbatim>\<open>wary\<close>, the triggered
  affordances are the types of the enabled affordances and the hints are their first
  hostile tells, so every enabled affordance is triggered and its first hostile tell, if
  it has one, is a hint. For \<^verbatim>\<open>warm\<close> or \<^verbatim>\<open>favorable\<close>, nothing is triggered and the hints
  are the first favorable tells of the enabled affordances. For \<^verbatim>\<open>neutral\<close> both lists
  are empty.
\<close>

theorem prediction_affordance_effects:
  assumes "map_of S (ap_location_id p) = Some location"
  shows "\<exists>r a. predict_action_consequence E S p clock = (Some r, S)
           \<and> affinity_after r = Some a
           \<and> (threshold_label a = ''hostile'' \<or> threshold_label a = ''wary'' \<longrightarrow>
                triggered_affordances r = map affordance_type (filter enabled (affordances location))
              \<and> narrative_hints r
                  = concat (map (\<lambda>aff. take 1 (tells_hostile aff)) (filter enabled (affordances location)))
              \<and> (\<forall>aff \<in> set (affordances location). enabled aff \<longrightarrow>
                    affordance_type aff \<in> set (triggered_affordances r)
                  \<and> (\<forall>t ts. tells_hostile aff = t # ts \<longrightarrow> t \<in> set (narrative_hints r))))
           \<and> (threshold_label a = ''warm'' \<or> threshold_label a = ''favorable'' \<longrightarrow>
                triggered_affordances r = []
              \<and> narrative_hints r
                  = concat (map (\<lambda>aff. take 1 (tells_favorable aff)) (filter enabled (affordances location)))
              \<and> (\<forall>aff \<in> set (affordances location). enabled aff \<longrightarrow>
                    (\<forall>t ts. tells_favorable aff = t # ts \<longrightarrow> t \<in> set (narrative_hints r))))
           \<and> (threshold_label a = ''neutral'' \<longrightarrow>
                triggered_affordances r = [] \<and> narrative_hints r = [])"
proof -
  from predict_present [OF assms, of E clock] obtain r a where
    r: "predict_action_consequence E S p clock = (Some r, S)" and
    a: "affinity_after r = Some a" and
    eff: "(triggered_affordances r, narrative_hints r)
            = affordance_effects (Some a) (affordances location)"
    by blast
  have hostile: "threshold_label a = ''hostile'' \<or> threshold_label a = ''wary'' \<Longrightarrow>
      triggered_affordances r = map affordance_type (filter enabled (affordances location))
      \<and> narrative_hints r
          = concat (map (\<lambda>aff. take 1 (tells_hostile aff)) (filter enabled (affordances location)))"
    using eff by (auto simp: affordance_effects_def hostile_loop_eq)
  have favorable: "threshold_label a = ''warm'' \<or> threshold_label a = ''favorable'' \<Longrightarrow>
      triggered_affordances r = []
      \<and> narrative_hints r
          = concat (map (\<lambda>aff. take 1 (tells_favorable aff)) (filter enabled (affordances location)))"
    using eff by (auto simp: affordance_effects_def favorable_loop_eq)
  have neutral: "threshold_label a = ''neutral'' \<Longrightarrow>
      triggered_affordances r = [] \<and> narrative_hints r = []"
    using eff by (auto simp: affordance_effects_def)
  show ?thesis
    using r a hostile favorable neutral
    by (auto intro: first_tell_mem)
qed


lemma predict_alice:
  "map_option (\<lambda>r. (map_option threshold_label (affinity_after r), triggered_affordances r,
                      narrative_hints r))
     (fst (predict_action_consequence (sample_env []) world_store alice_burns (100, 100, 100)))
   = Some (Some ''hostile'', [''pathing''], [''the woods creak''])"
  by (simp add: predict_action_consequence_def compute_affinity_for_actor_def
      affordance_effects_def sample_defs Let_def)

lemma predict_bob:
  "map_option (\<lambda>r. (map_option threshold_label (affinity_after r), triggered_affordances r,
                      narrative_hints r))
     (fst (predict_action_consequence (sample_env []) world_store bob_gives (100, 100, 100)))
   = Some (Some ''favorable'', [], [''the glade glows''])"
  by (simp add: predict_action_consequence_def compute_affinity_for_actor_def
      affordance_effects_def sample_defs Let_def)

theorem prediction_affordance_effects_witness:
  "map_of world_store (ap_location_id alice_burns) = Some woods
   \<and> (\<exists>r a. predict_action_consequence (sample_env []) world_store alice_burns (100, 100, 100)
               = (Some r, world_store)
          \<and> affinity_after r = Some a \<and> threshold_label a = ''hostile''
          \<and> triggered_affordances r = [''pathing'']
          \<and> narrative_hints r = [''the woods creak''])
   \<and> map_of world_store (ap_location_id bob_gives) = Some glade
   \<and> (\<exists>r a. predict_action_consequence (sample_env []) world_store bob_gives (100, 100, 100)
               = (Some r, world_store)
          \<and> affinity_after r = Some a \<and> threshold_label a = ''favorable''
          \<and> triggered_affordances r = []
          \<and> narrative_hints r = [''the glade glows''])"
proof -
  have loc: "map_of world_store (ap_location_id alice_burns) = Some woods"
    by (simp add: world_store_def alice_burns_def)
  from prediction_affordance_effects [OF loc, of "sample_env []" "(100, 100, 100)"]
  obtain r a where
    r: "predict_action_consequence (sample_env []) world_store alice_burns (100, 100, 100)
          = (Some r, world_store)" and
    a: "affinity_after r = Some a" and
    h: "threshold_label a = ''hostile'' \<or> threshold_label a = ''wary'' \<longrightarrow>
          triggered_affordances r = map affordance_type (filter enabled (affordances woods))
          \<and> narrative_hints r
              = concat (map (\<lambda>aff. take 1 (tells_hostile aff)) (filter enabled (affordances woods)))"
    by blast
  from predict_alice r a have lab: "threshold_label a = ''hostile''" by simp
  with h have "triggered_affordances r = [''pathing'']"
    "narrative_hints r = [''the woods creak'']"
    by (simp_all add: woods_def)
  with r a lab have first: "\<exists>r a.
      predict_action_consequence (sample_env []) world_store alice_burns (100, 100, 100)
        = (Some r, world_store)
      \<and> affinity_after r = Some a \<and> threshold_label a = ''hostile''
      \<and> triggered_affordances r = [''pathing'']
      \<and> narrative_hints r = [''the woods creak'']"
    by blast
  have loc': "map_of world_store (ap_location_id bob_gives) = Some glade"
    by (simp add: world_store_def bob_gives_def)
  from prediction_affordance_effects [OF loc', of "sample_env []" "(100, 100, 100)"]
  obtain r' a' where
    r': "predict_action_consequence (sample_env []) world_store bob_gives (100, 100, 100)
          = (Some r', world_store)" and
    a': "affinity_after r' = Some a'" and
    h': "threshold_label a' = ''warm'' \<or> threshold_label a' = ''favorable'' \<longrightarrow>
          triggered_affordances r' = []
          \<and> narrative_hints r'
              = concat (map (\<lambda>aff. take 1 (tells_favorable aff)) (filter enabled (affordances glade)))"
    by blast
  from predict_bob r' a' have lab': "threshold_label a' = ''favorable''" by simp
  with h' have "triggered_affordances r' = []" "narrative_hints r' = [''the glade glows'']"
    by (simp_all add: glade_def)
  with r' a' lab' have second: "\<exists>r a.
      predict_action_consequence (sample_env []) world_store bob_gives (100, 100, 100)
        = (Some r, world_store)
      \<and> affinity_after r = Some a \<and> threshold_label a = ''favorable''
      \<and> triggered_affordances r = []
      \<and> narrative_hints r = [''the glade glows'']"
    by blast
  from loc first loc' second show ?thesis by blast
qed

section \<open>The registry in a prediction\<close>

text \<open>
  Claim C3. An affordance counts as enabled when its own flag and its entry in the
  process-wide registry are both true. \<^verbatim>\<open>get_location_state\<close> reports it so, but the loops
  of \<^verbatim>\<open>predict_action_consequence\<close> test the affordance's own flag only: with
  \<^verbatim>\<open>pathing\<close> switched off in the registry, the state of the woods lists the affordance as
  disabled while a hostile prediction still reports it as triggered and surfaces its tell.
\<close>

theorem predict_ignores_registry:
  "is_affordance_enabled (sample_env [(''pathing'', False)]) ''pathing'' = False
   \<and> map_option (\<lambda>s. map ai_enabled (ls_affordances s))
       (get_location_state (sample_env [(''pathing'', False)]) world_store
          \<lparr>lq_location_id = ''whispering_woods'', include_traces = True,
           include_affordances = True, decay_to_now = True\<rparr> 100) = Some [False]
   \<and> map_option (\<lambda>r. (map_option threshold_label (affinity_after r), triggered_affordances r,
                         narrative_hints r))
       (fst (predict_action_consequence (sample_env [(''pathing'', False)]) world_store
               alice_burns (100, 100, 100)))
     = Some (Some ''hostile'', [''pathing''], [''the woods creak''])"
  by (simp add: predict_action_consequence_def compute_affinity_for_actor_def
      affordance_effects_def get_location_state_def affordance_info_def sample_defs Let_def)

section \<open>A trace query for an unknown location\<close>

lemma query_traces_absent:
  assumes "lid \<noteq> []" and "lid \<notin> set (list_locations S)"
  shows "query_traces E S (q\<lparr>tq_location_id := Some lid\<rparr>) now = Inl (KeyError lid)"
  using assms
  by (simp add: query_traces_def query_locations_def list_locations_def map_of_eq_None_iff [symmetric])

text \<open>
  Claim C6. A trace query whose location id is not a key of the store does not end in a
  not-found answer: the subscript \<^verbatim>\<open>self._locations[query.location_id]\<close> raises
  \<^verbatim>\<open>KeyError\<close>, and the tool \<^verbatim>\<open>query_traces\<close> does not catch it, whereas the tool
  \<^verbatim>\<open>get_location_state\<close> answers the same id with the error \<^verbatim>\<open>Location 'nowhere' not found\<close>.
\<close>

theorem query_traces_unknown_location_raises:
  "query_traces (sample_env []) world_store
     \<lparr>tq_location_id = Some ''nowhere'', tq_actor_id = None, tq_event_type = None,
      tq_channel = None, min_intensity = Float 0, limit = 100\<rparr> 100 = Inl (KeyError ''nowhere'')
   \<and> tool_query_traces (sample_env []) world_store (Some ''nowhere'') None None None (Float 0)
       100 100
       = Inl (KeyError ''nowhere'')
   \<and> tool_get_location_state (sample_env []) world_store ''nowhere'' True True 100
       = Inl (not_found ''nowhere'')"
  by (simp add: query_traces_def query_locations_def tool_query_traces_def
      tool_get_location_state_def get_location_state_def world_store_def)


section \<open>Ranking of trace queries\<close>

lemma not_less_float: "m \<noteq> NaN \<Longrightarrow> (\<not> less_float x m) = at_least x m"
  by (cases m) auto

lemma admits_iff: "admits f v \<longleftrightarrow> \<not> (truthy f \<and> Some v \<noteq> f)"
  by (auto simp: admits_def truthy_def split: option.splits)

lemma channel_selected_iff:
  "channel_selected q ''personal'' \<longleftrightarrow> tq_channel q = None \<or> tq_channel q = Some PERSONAL"
  "channel_selected q ''group'' \<longleftrightarrow> tq_channel q = None \<or> tq_channel q = Some GROUP"
  "channel_selected q ''behavior'' \<longleftrightarrow> tq_channel q = None \<or> tq_channel q = Some BEHAVIOR"
proof -
  show "channel_selected q ''personal'' \<longleftrightarrow> tq_channel q = None \<or> tq_channel q = Some PERSONAL"
  proof (cases "tq_channel q")
    case None
    then show ?thesis by (simp add: channel_selected_def)
  next
    case (Some c)
    then show ?thesis by (cases c) (simp_all add: channel_selected_def)
  qed
  show "channel_selected q ''group'' \<longleftrightarrow> tq_channel q = None \<or> tq_channel q = Some GROUP"
  proof (cases "tq_channel q")
    case None
    then show ?thesis by (simp add: channel_selected_def)
  next
    case (Some c)
    then show ?thesis by (cases c) (simp_all add: channel_selected_def)
  qed
  show "channel_selected q ''behavior'' \<longleftrightarrow> tq_channel q = None \<or> tq_channel q = Some BEHAVIOR"
  proof (cases "tq_channel q")
    case None
    then show ?thesis by (simp add: channel_selected_def)
  next
    case (Some c)
    then show ?thesis by (cases c) (simp_all add: channel_selected_def)
  qed
qed

lemma scan_personal_filter:
  "min_intensity q \<noteq> NaN \<Longrightarrow>
   scan_personal E q hl now trs =
     map (\<lambda>(k, trace). trace_info (pair_key k) ''personal'' (get_decayed_value E trace hl now) trace)
       (filter (\<lambda>(k, trace).
                  admits (tq_actor_id q) (fst k) \<and> admits (tq_event_type q) (snd k)
                  \<and> at_least (get_decayed_value E trace hl now) (min_intensity q)) trs)"
  by (induction E q hl now trs rule: scan_personal.induct)
     (simp_all add: admits_iff not_less_float [symmetric])

lemma scan_group_filter:
  "min_intensity q \<noteq> NaN \<Longrightarrow>
   scan_group E q hl now trs =
     map (\<lambda>(k, trace). trace_info (pair_key k) ''group'' (get_decayed_value E trace hl now) trace)
       (filter (\<lambda>(k, trace).
                  admits (tq_event_type q) (snd k)
                  \<and> at_least (get_decayed_value E trace hl now) (min_intensity q)) trs)"
  by (induction E q hl now trs rule: scan_group.induct)
     (simp_all add: admits_iff not_less_float [symmetric])

lemma scan_behavior_filter:
  "min_intensity q \<noteq> NaN \<Longrightarrow>
   scan_behavior E q hl now trs =
     map (\<lambda>(k, trace). trace_info k ''behavior'' (get_decayed_value E trace hl now) trace)
       (filter (\<lambda>(k, trace).
                  admits (tq_event_type q) k
                  \<and> at_least (get_decayed_value E trace hl now) (min_intensity q)) trs)"
  by (induction E q hl now trs rule: scan_behavior.induct)
     (simp_all add: admits_iff not_less_float [symmetric])

lemma filter_with_constant:
  "filter (\<lambda>(k, trace). c \<and> P k trace) xs = (if c then filter (\<lambda>(k, trace). P k trace) xs else [])"
  by (cases c) simp_all

lemma scan_location_spec:
  assumes "min_intensity q \<noteq> NaN"
  shows "scan_location E q now location = spec_matches E q now location"
proof -
  have p: "(if channel_selected q ''personal''
            then scan_personal E q (personal_hl E) now (personal_traces location) else [])
      = map (\<lambda>(k, trace).
            trace_info (pair_key k) ''personal'' (get_decayed_value E trace (personal_hl E) now) trace)
       (filter (\<lambda>(k, trace).
                  (tq_channel q = None \<or> tq_channel q = Some PERSONAL)
                  \<and> admits (tq_actor_id q) (fst k) \<and> admits (tq_event_type q) (snd k)
                  \<and> at_least (get_decayed_value E trace (personal_hl E) now) (min_intensity q))
          (personal_traces location))"
    by (simp add: scan_personal_filter [OF assms] channel_selected_iff filter_with_constant)
  have g: "(if channel_selected q ''group''
            then scan_group E q (group_hl E) now (group_traces location) else [])
      = map (\<lambda>(k, trace).
            trace_info (pair_key k) ''group'' (get_decayed_value E trace (group_hl E) now) trace)
       (filter (\<lambda>(k, trace).
                  (tq_channel q = None \<or> tq_channel q = Some GROUP)
                  \<and> admits (tq_event_type q) (snd k)
                  \<and> at_least (get_decayed_value E trace (group_hl E) now) (min_intensity q))
          (group_traces location))"
    by (simp add: scan_group_filter [OF assms] channel_selected_iff filter_with_constant)
  have b: "(if channel_selected q ''behavior''
            then scan_behavior E q (behavior_hl E) now (behavior_traces location) else [])
      = map (\<lambda>(k, trace).
            trace_info k ''behavior'' (get_decayed_value E trace (behavior_hl E) now) trace)
       (filter (\<lambda>(k, trace).
                  (tq_channel q = None \<or> tq_channel q = Some BEHAVIOR)
                  \<and> admits (tq_event_type q) k
                  \<and> at_least (get_decayed_value E trace (behavior_hl E) now) (min_intensity q))
          (behavior_traces location))"
    by (simp add: scan_behavior_filter [OF assms] channel_selected_iff filter_with_constant)
  show ?thesis
    unfolding scan_location_def spec_matches_def p g b ..
qed

lemma scan_location_spec_fun:
  "min_intensity q \<noteq> NaN \<Longrightarrow> scan_location E q now = spec_matches E q now"
  by (rule ext) (rule scan_location_spec)

lemma query_locations_spec:
  "query_locations S q = Inr locations \<Longrightarrow> locations = spec_scanned S q"
  by (auto simp: query_locations_def spec_scanned_def split: option.splits if_splits)

lemma spec_matches_at_least:
  "t \<in> set (spec_matches E q now location) \<Longrightarrow> at_least (decayed_value t) (min_intensity q)"
  by (auto simp: spec_matches_def trace_info_def)

lemma sort_decayed_sorted:
  "sorted_wrt (\<lambda>a b. decayed_value b \<le> decayed_value a) (sort_key (\<lambda>t. - decayed_value t) xs)"
proof -
  have "sorted (map (\<lambda>t. - decayed_value t) (sort_key (\<lambda>t. - decayed_value t) xs))"
    by simp
  then show ?thesis by (simp add: sorted_map)
qed

lemma take_above_drop:
  assumes "sorted_wrt R ys" and "t \<in> set (take n ys)" and "u \<in> set (drop n ys)"
  shows "R t u"
proof -
  have "sorted_wrt R (take n ys @ drop n ys)" using assms(1) by simp
  then show ?thesis using assms(2,3) unfolding sorted_wrt_append by blast
qed

lemma rest_of_take:
  "mset xs - mset (take n (sort_key f xs)) = mset (drop n (sort_key f xs))"
proof -
  have "mset xs = mset (take n (sort_key f xs)) + mset (drop n (sort_key f xs))"
    by (metis append_take_drop_id mset_append mset_sort)
  then show ?thesis by simp
qed

lemma take_sort_subset: "mset (take n (sort_key f xs)) \<subseteq># mset xs"
proof -
  have "mset xs = mset (take n (sort_key f xs)) + mset (drop n (sort_key f xs))"
    by (metis append_take_drop_id mset_append mset_sort)
  then show ?thesis by simp
qed

lemma query_two:
  "query_traces (sample_env []) world_store (all_traces_query 2) 100 =
     Inr [trace_info ''(alice, harm.fire)'' ''personal'' 2
            \<lparr>accumulated = 2, last_updated = 100, event_count = 3, is_scar = True\<rparr>,
          trace_info ''(bob, offer.gift)'' ''personal'' 2
            \<lparr>accumulated = 2, last_updated = 100, event_count = 2, is_scar = True\<rparr>]"
  by (simp add: query_traces_def query_locations_def candidates_def scan_location_def
      channel_selected_def truthy_def all_traces_query_def pair_key_def sort_desc_def
      py_slice_to_def trace_info_def sample_defs)

text \<open>
  Claim C2, as amended. Whenever \<^verbatim>\<open>query_traces\<close> returns for a query whose limit is not
  negative and whose \<^verbatim>\<open>min_intensity\<close> is not \<^verbatim>\<open>NaN\<close>, the result is the first \<open>limit\<close>
  elements of the list of all matches among the stored traces of all scanned locations,
  sorted by decayed value in descending order. So every returned trace is a match with a
  decayed value of at least \<^verbatim>\<open>min_intensity\<close>, the list is in descending order, it has at
  most \<open>limit\<close> elements, and no match of any scanned location that was left out has a
  greater decayed value than a returned one.
\<close>

theorem query_traces_ranked:
  assumes "query_traces E S q now = Inr results"
    and "0 \<le> limit q" and "min_intensity q \<noteq> NaN"
  shows "results =
           take (nat (limit q)) (sort_key (\<lambda>t. - decayed_value t) (spec_all_matches E S q now))
       \<and> (\<forall>t \<in> set results. at_least (decayed_value t) (min_intensity q))
       \<and> sorted_wrt (\<lambda>a b. decayed_value b \<le> decayed_value a) results
       \<and> int (length results) \<le> limit q
       \<and> mset results \<subseteq># mset (spec_all_matches E S q now)
       \<and> (\<forall>t \<in> set results. \<forall>u \<in># mset (spec_all_matches E S q now) - mset results.
             decayed_value u \<le> decayed_value t)"
proof -
  let ?all = "spec_all_matches E S q now"
  let ?sorted = "sort_key (\<lambda>t. - decayed_value t) ?all"
  from assms(1) obtain locations where
    locs: "query_locations S q = Inr locations" and
    res0: "results = py_slice_to (limit q) (sort_desc (candidates E q now locations))"
    by (auto simp: query_traces_def split: sum.splits)
  have "candidates E q now locations = ?all"
    using query_locations_spec [OF locs]
    by (simp add: candidates_def spec_all_matches_def scan_location_spec_fun [OF assms(3)])
  with res0 assms(2) have res: "results = take (nat (limit q)) ?sorted"
    by (simp add: py_slice_to_def sort_desc_def)
  have min: "\<forall>t \<in> set results. at_least (decayed_value t) (min_intensity q)"
  proof
    fix t assume "t \<in> set results"
    then have "t \<in> set ?sorted" unfolding res by (rule in_set_takeD)
    then have "t \<in> set ?all" by simp
    then show "at_least (decayed_value t) (min_intensity q)"
      by (auto simp: spec_all_matches_def dest: spec_matches_at_least)
  qed
  have srt: "sorted_wrt (\<lambda>a b. decayed_value b \<le> decayed_value a) results"
    unfolding res by (rule sorted_wrt_take [OF sort_decayed_sorted])
  have len: "int (length results) \<le> limit q"
    unfolding res using assms(2) by simp
  have sub: "mset results \<subseteq># mset ?all"
    unfolding res by (rule take_sort_subset)
  have top: "\<forall>t \<in> set results. \<forall>u \<in># mset ?all - mset results.
      decayed_value u \<le> decayed_value t"
  proof (intro ballI)
    fix t u assume t: "t \<in> set results" and u: "u \<in># mset ?all - mset results"
    from u have "u \<in> set (drop (nat (limit q)) ?sorted)"
      unfolding res rest_of_take by simp
    with t show "decayed_value u \<le> decayed_value t"
      unfolding res using take_above_drop [OF sort_decayed_sorted] by blast
  qed
  from res min srt len sub top show ?thesis by blast
qed

theorem query_traces_ranked_witness:
  "0 \<le> limit (all_traces_query 2) \<and> min_intensity (all_traces_query 2) \<noteq> NaN
   \<and> (\<exists>results. query_traces (sample_env []) world_store (all_traces_query 2) 100 = Inr results
          \<and> map key results = [''(alice, harm.fire)'', ''(bob, offer.gift)'']
          \<and> results =
              take (nat (limit (all_traces_query 2)))
                (sort_key (\<lambda>t. - decayed_value t)
                   (spec_all_matches (sample_env []) world_store (all_traces_query 2) 100))
          \<and> (\<forall>t \<in> set results. at_least (decayed_value t) (min_intensity (all_traces_query 2)))
          \<and> sorted_wrt (\<lambda>a b. decayed_value b \<le> decayed_value a) results
          \<and> int (length results) \<le> limit (all_traces_query 2))"
proof -
  have l: "0 \<le> limit (all_traces_query 2)" by (simp add: all_traces_query_def)
  have m: "min_intensity (all_traces_query 2) \<noteq> NaN" by (simp add: all_traces_query_def)
  have k: "map key
      [trace_info ''(alice, harm.fire)'' ''personal'' 2
         \<lparr>accumulated = 2, last_updated = 100, event_count = 3, is_scar = True\<rparr>,
       trace_info ''(bob, offer.gift)'' ''personal'' 2
         \<lparr>accumulated = 2, last_updated = 100, event_count = 2, is_scar = True\<rparr>]
      = [''(alice, harm.fire)'', ''(bob, offer.gift)'']"
    by (simp add: trace_info_def)
  note t = query_traces_ranked [OF query_two l m]
  note t1 = t [THEN conjunct1]
  note t2 = t [THEN conjunct2, THEN conjunct1]
  note t3 = t [THEN conjunct2, THEN conjunct2, THEN conjunct1]
  note t4 = t [THEN conjunct2, THEN conjunct2, THEN conjunct2, THEN conjunct1]
  have e: "\<exists>results. query_traces (sample_env []) world_store (all_traces_query 2) 100 = Inr results
          \<and> map key results = [''(alice, harm.fire)'', ''(bob, offer.gift)'']
          \<and> results =
              take (nat (limit (all_traces_query 2)))
                (sort_key (\<lambda>t. - decayed_value t)
                   (spec_all_matches (sample_env []) world_store (all_traces_query 2) 100))
          \<and> (\<forall>t \<in> set results. at_least (decayed_value t) (min_intensity (all_traces_query 2)))
          \<and> sorted_wrt (\<lambda>a b. decayed_value b \<le> decayed_value a) results
          \<and> int (length results) \<le> limit (all_traces_query 2)"
    by (rule exI [of _ "[trace_info ''(alice, harm.fire)'' ''personal'' 2
         \<lparr>accumulated = 2, last_updated = 100, event_count = 3, is_scar = True\<rparr>,
       trace_info ''(bob, offer.gift)'' ''personal'' 2
         \<lparr>accumulated = 2, last_updated = 100, event_count = 2, is_scar = True\<rparr>]"])
       (intro conjI query_two k t1 t2 t3 t4)
  show ?thesis by (intro conjI l m e)
qed

text \<open>
  The claim as stated, for every query, fails in two ways. For a negative limit the slice
  \<^verbatim>\<open>results[:-1]\<close> drops the last of three matches, and the two returned traces are more
  than \<open>-1\<close>. For the threshold \<^verbatim>\<open>NaN\<close> no comparison \<^verbatim>\<open>decayed < min_intensity\<close> holds, so a
  trace is returned whose decayed value is not at least the threshold.
\<close>

theorem query_traces_negative_limit:
  "query_traces (sample_env []) world_store (all_traces_query (- 1)) 100 =
     Inr [trace_info ''(alice, harm.fire)'' ''personal'' 2
            \<lparr>accumulated = 2, last_updated = 100, event_count = 3, is_scar = True\<rparr>,
          trace_info ''(bob, offer.gift)'' ''personal'' 2
            \<lparr>accumulated = 2, last_updated = 100, event_count = 2, is_scar = True\<rparr>]
   \<and> \<not> int (length
          [trace_info ''(alice, harm.fire)'' ''personal'' 2
             \<lparr>accumulated = 2, last_updated = 100, event_count = 3, is_scar = True\<rparr>,
           trace_info ''(bob, offer.gift)'' ''personal'' 2
             \<lparr>accumulated = 2, last_updated = 100, event_count = 2, is_scar = True\<rparr>])
        \<le> limit (all_traces_query (- 1))
   \<and> query_traces (sample_env []) world_store nan_query 100 =
       Inr [trace_info ''offer.gift'' ''behavior'' 0.6
              \<lparr>accumulated = 0.6, last_updated = 100, event_count = 2, is_scar = True\<rparr>]
   \<and> \<not> at_least
          (decayed_value
             (trace_info ''offer.gift'' ''behavior'' 0.6
                \<lparr>accumulated = 0.6, last_updated = 100, event_count = 2, is_scar = True\<rparr>))
          (min_intensity nan_query)"
  by (simp add: query_traces_def query_locations_def candidates_def scan_location_def
      channel_selected_def truthy_def all_traces_query_def nan_query_def pair_key_def
      sort_desc_def py_slice_to_def trace_info_def sample_defs)

section \<open>The mood of a location\<close>

lemma dict_get_update:
  "dict_get (AList.update k v d) c dflt = (if c = k then v else dict_get d c dflt)"
  by (simp add: dict_get_def AList.update_conv')

lemma behavior_loop_total:
  "dict_get (behavior_loop E cutoff trs summary) c 0 =
     foldl (float_add E) (dict_get summary c 0)
       (map (\<lambda>(event_type, trace). accumulated trace)
          (filter (\<lambda>(event_type, trace).
                     cutoff \<le> last_updated trace \<and> takeWhile (\<lambda>x. x \<noteq> CHR ''.'') event_type = c)
             trs))"
proof (induction trs arbitrary: summary)
  case Nil
  then show ?case by simp
next
  case (Cons x trs)
  obtain event_type trace where x: "x = (event_type, trace)" by (cases x)
  show ?case
    unfolding x
    by (simp add: Cons.IH dict_get_update category_of_def split_first_takeWhile Let_def)
qed

lemma behavior_loop_spec:
  "dict_get (behavior_loop E cutoff trs []) c 0 = spec_window_total E cutoff trs c"
  unfolding behavior_loop_total spec_window_total_def by (simp add: dict_get_def)

lemma mood_of_spec: "mood_of harm offer create = spec_mood harm offer create"
  by (simp add: mood_of_def spec_mood_def not_less)

lemma history_returns:
  assumes "map_of S lid = Some location"
  shows "(\<bar>days * 86400\<bar> < 2 ^ 1024 - 2 ^ 970 \<longrightarrow>
            (\<exists>r. get_world_history_summary E S lid days now = Inr (Some r)))
       \<and> (2 ^ 1024 - 2 ^ 970 \<le> \<bar>days * 86400\<bar> \<longrightarrow>
            get_world_history_summary E S lid days now = Inl OverflowError)"
  using assms
  by (simp add: get_world_history_summary_def history_cutoff_def int_to_float_def Let_def)

lemma history_cutoff_spec:
  "history_cutoff E now days = Inr cutoff \<Longrightarrow> cutoff = spec_cutoff E now days"
  by (auto simp: history_cutoff_def int_to_float_def spec_cutoff_def split: if_splits)

text \<open>
  Claim C8. For a stored location and every window, the mood of a summary that
  \<^verbatim>\<open>get_world_history_summary\<close> returns is the decision table of the specification applied
  to the totals of the categories \<^verbatim>\<open>harm\<close>, \<^verbatim>\<open>offer\<close> and \<^verbatim>\<open>create\<close> over the behavior traces
  inside the window. The method returns a summary when \<open>days * 86400\<close> is in the range of
  the floats, and raises \<^verbatim>\<open>OverflowError\<close> otherwise.
\<close>

theorem mood_is_decision_table:
  assumes "map_of S lid = Some location"
  shows "(\<forall>r. get_world_history_summary E S lid days now = Inr (Some r) \<longrightarrow>
            mood r =
              spec_mood
                (spec_window_total E (spec_cutoff E now days) (behavior_traces location) ''harm'')
                (spec_window_total E (spec_cutoff E now days) (behavior_traces location) ''offer'')
                (spec_window_total E (spec_cutoff E now days) (behavior_traces location) ''create''))
       \<and> (\<bar>days * 86400\<bar> < 2 ^ 1024 - 2 ^ 970 \<longrightarrow>
            (\<exists>r. get_world_history_summary E S lid days now = Inr (Some r)))
       \<and> (2 ^ 1024 - 2 ^ 970 \<le> \<bar>days * 86400\<bar> \<longrightarrow>
            get_world_history_summary E S lid days now = Inl OverflowError)"
proof -
  have "mood r =
      spec_mood
        (spec_window_total E (spec_cutoff E now days) (behavior_traces location) ''harm'')
        (spec_window_total E (spec_cutoff E now days) (behavior_traces location) ''offer'')
        (spec_window_total E (spec_cutoff E now days) (behavior_traces location) ''create'')"
    if r: "get_world_history_summary E S lid days now = Inr (Some r)" for r
  proof -
    from r assms obtain cutoff where
      c: "history_cutoff E now days = Inr cutoff" and
      m: "mood r =
            mood_of (dict_get (behavior_loop E cutoff (behavior_traces location) []) ''harm'' 0)
              (dict_get (behavior_loop E cutoff (behavior_traces location) []) ''offer'' 0)
              (dict_get (behavior_loop E cutoff (behavior_traces location) []) ''create'' 0)"
      by (auto simp: get_world_history_summary_def Let_def split: sum.splits)
    show ?thesis
      unfolding m behavior_loop_spec mood_of_spec history_cutoff_spec [OF c] ..
  qed
  with history_returns [OF assms, of days E now] show ?thesis by blast
qed

theorem mood_is_decision_table_witness:
  "map_of world_store ''whispering_woods'' = Some woods
   \<and> \<bar>30 * 86400 :: int\<bar> < 2 ^ 1024 - 2 ^ 970
   \<and> (\<exists>r. get_world_history_summary (sample_env []) world_store ''whispering_woods'' 30 200
            = Inr (Some r)
          \<and> mood r = ''violent'')
   \<and> map_of world_store ''sunlit_glade'' = Some glade
   \<and> (\<exists>r. get_world_history_summary (sample_env []) world_store ''sunlit_glade'' 30 200
            = Inr (Some r)
          \<and> mood r = ''sacred'')"
proof -
  have w: "map_of world_store ''whispering_woods'' = Some woods"
    by (simp add: world_store_def)
  have g: "map_of world_store ''sunlit_glade'' = Some glade"
    by (simp add: world_store_def)
  have c: "\<bar>30 * 86400 :: int\<bar> < 2 ^ 1024 - 2 ^ 970"
    by simp
  note tw = mood_is_decision_table [OF w, of "sample_env []" 30 200]
  note tg = mood_is_decision_table [OF g, of "sample_env []" 30 200]
  from tw c obtain r where
    r: "get_world_history_summary (sample_env []) world_store ''whispering_woods'' 30 200
          = Inr (Some r)"
    by blast
  with tw have "mood r =
      spec_mood
        (spec_window_total (sample_env []) (spec_cutoff (sample_env []) 200 30)
           (behavior_traces woods) ''harm'')
        (spec_window_total (sample_env []) (spec_cutoff (sample_env []) 200 30)
           (behavior_traces woods) ''offer'')
        (spec_window_total (sample_env []) (spec_cutoff (sample_env []) 200 30)
           (behavior_traces woods) ''create'')"
    by blast
  then have "mood r = ''violent''"
    by (simp add: spec_mood_def spec_window_total_def spec_cutoff_def woods_def sample_env_def)
  with r have first:
    "\<exists>r. get_world_history_summary (sample_env []) world_store ''whispering_woods'' 30 200
            = Inr (Some r)
          \<and> mood r = ''violent''"
    by blast
  from tg c obtain r' where
    r': "get_world_history_summary (sample_env []) world_store ''sunlit_glade'' 30 200
          = Inr (Some r')"
    by blast
  with tg have "mood r' =
      spec_mood
        (spec_window_total (sample_env []) (spec_cutoff (sample_env []) 200 30)
           (behavior_traces glade) ''harm'')
        (spec_window_total (sample_env []) (spec_cutoff (sample_env []) 200 30)
           (behavior_traces glade) ''offer'')
        (spec_window_total (sample_env []) (spec_cutoff (sample_env []) 200 30)
           (behavior_traces glade) ''create'')"
    by blast
  then have "mood r' = ''sacred''"
    by (simp add: spec_mood_def spec_window_total_def spec_cutoff_def glade_def sample_env_def)
  with r' have second:
    "\<exists>r. get_world_history_summary (sample_env []) world_store ''sunlit_glade'' 30 200
            = Inr (Some r)
          \<and> mood r = ''sacred''"
    by blast
  from w c first g second show ?thesis by blast
qed

section \<open>The window and the caps of the history\<close>

lemma personal_loop_eq:
  "personal_loop cutoff trs actors events =
     (actors \<union> (\<lambda>item. fst (fst item)) ` set (filter (\<lambda>item. cutoff \<le> last_updated (snd item)) trs),
      events @ map dominant_event (filter (\<lambda>item. cutoff \<le> last_updated (snd item)) trs))"
  by (induction cutoff trs actors events rule: personal_loop.induct)
     (auto simp: dominant_event_def)

lemma sort_intensity_sorted:
  "sorted_wrt (\<lambda>a b. de_intensity b \<le> de_intensity a) (sort_key (\<lambda>e. - de_intensity e) xs)"
proof -
  have "sorted (map (\<lambda>e. - de_intensity e) (sort_key (\<lambda>e. - de_intensity e) xs))"
    by simp
  then show ?thesis by (simp add: sorted_map)
qed

text \<open>
  Claim C9. For a stored location and every window, a summary that
  \<^verbatim>\<open>get_world_history_summary\<close> returns has these properties. The dominant events are the
  first ten, by accumulated intensity in descending order, of the candidates of exactly
  those personal traces whose last update is at or after the float \<open>now - days * 86400\<close>;
  the notable actors are the first ten of an enumeration of the actors of exactly those
  traces; the dominant events are in descending order of intensity and at most ten, and
  the notable actors are at most ten. The method returns a summary when \<open>days * 86400\<close>
  is in the range of the floats, and raises \<^verbatim>\<open>OverflowError\<close> otherwise.
\<close>

theorem history_window_and_caps:
  assumes "map_of S lid = Some location"
  shows "(\<forall>r. get_world_history_summary E S lid days now = Inr (Some r) \<longrightarrow>
            dominant_events r =
               take 10 (sort_key (\<lambda>e. - de_intensity e)
                 (map dominant_event
                    (filter (\<lambda>item. spec_cutoff E now days \<le> last_updated (snd item))
                       (personal_traces location))))
          \<and> notable_actors r =
               take 10 (set_to_list E
                 ((\<lambda>item. fst (fst item)) `
                    set (filter (\<lambda>item. spec_cutoff E now days \<le> last_updated (snd item))
                           (personal_traces location))))
          \<and> sorted_wrt (\<lambda>a b. de_intensity b \<le> de_intensity a) (dominant_events r)
          \<and> length (dominant_events r) \<le> 10
          \<and> length (notable_actors r) \<le> 10)
       \<and> (\<bar>days * 86400\<bar> < 2 ^ 1024 - 2 ^ 970 \<longrightarrow>
            (\<exists>r. get_world_history_summary E S lid days now = Inr (Some r)))
       \<and> (2 ^ 1024 - 2 ^ 970 \<le> \<bar>days * 86400\<bar> \<longrightarrow>
            get_world_history_summary E S lid days now = Inl OverflowError)"
proof -
  have "dominant_events r =
               take 10 (sort_key (\<lambda>e. - de_intensity e)
                 (map dominant_event
                    (filter (\<lambda>item. spec_cutoff E now days \<le> last_updated (snd item))
                       (personal_traces location))))
          \<and> notable_actors r =
               take 10 (set_to_list E
                 ((\<lambda>item. fst (fst item)) `
                    set (filter (\<lambda>item. spec_cutoff E now days \<le> last_updated (snd item))
                           (personal_traces location))))
          \<and> sorted_wrt (\<lambda>a b. de_intensity b \<le> de_intensity a) (dominant_events r)
          \<and> length (dominant_events r) \<le> 10
          \<and> length (notable_actors r) \<le> 10"
    if r: "get_world_history_summary E S lid days now = Inr (Some r)" for r
  proof -
    from r assms obtain cutoff where
      c: "history_cutoff E now days = Inr cutoff" and
      d: "dominant_events r =
            py_slice_to 10 (sort_key (\<lambda>e. - de_intensity e)
              (snd (personal_loop cutoff (personal_traces location) {} [])))" and
      n: "notable_actors r =
            py_slice_to 10 (set_to_list E
              (fst (personal_loop cutoff (personal_traces location) {} [])))"
      by (auto simp: get_world_history_summary_def Let_def split: sum.splits)
    show ?thesis
      unfolding d n history_cutoff_spec [OF c]
      by (simp add: personal_loop_eq py_slice_to_def sorted_wrt_take [OF sort_intensity_sorted])
  qed
  with history_returns [OF assms, of days E now] show ?thesis by blast
qed

theorem history_window_and_caps_witness:
  "map_of world_store ''whispering_woods'' = Some woods
   \<and> \<bar>30 * 86400 :: int\<bar> < 2 ^ 1024 - 2 ^ 970
   \<and> (\<exists>r. get_world_history_summary (sample_env []) world_store ''whispering_woods'' 30 200
            = Inr (Some r)
          \<and> dominant_events r =
              [\<lparr>de_event_type = ''harm.fire'', de_actor = ''alice'', de_intensity = 2, de_count = 3\<rparr>]
          \<and> notable_actors r = [''alice''])
   \<and> (\<exists>r. get_world_history_summary (sample_env []) world_store ''whispering_woods'' 0 200
            = Inr (Some r)
          \<and> dominant_events r = [] \<and> notable_actors r = [])"
proof -
  have w: "map_of world_store ''whispering_woods'' = Some woods"
    by (simp add: world_store_def)
  have c: "\<bar>30 * 86400 :: int\<bar> < 2 ^ 1024 - 2 ^ 970" "\<bar>0 * 86400 :: int\<bar> < 2 ^ 1024 - 2 ^ 970"
    by simp_all
  have tr: "personal_traces woods =
      [((''alice'', ''harm.fire''),
        \<lparr>accumulated = 2, last_updated = 100, event_count = 3, is_scar = True\<rparr>)]"
    by (simp add: woods_def)
  have stl: "set_to_list (sample_env []) = sorted_list_of_set"
    by (simp add: sample_env_def)
  have cut: "spec_cutoff (sample_env []) 200 30 = - 2591800" "spec_cutoff (sample_env []) 200 0 = 200"
    by (simp_all add: spec_cutoff_def sample_env_def)
  note t30 = history_window_and_caps [OF w, of "sample_env []" 30 200]
  note t0 = history_window_and_caps [OF w, of "sample_env []" 0 200]
  from t30 c obtain r where
    r: "get_world_history_summary (sample_env []) world_store ''whispering_woods'' 30 200
          = Inr (Some r)"
    by blast
  with t30 have "dominant_events r =
      [\<lparr>de_event_type = ''harm.fire'', de_actor = ''alice'', de_intensity = 2, de_count = 3\<rparr>]
      \<and> notable_actors r = [''alice'']"
    by (simp add: tr stl cut dominant_event_def)
  with r have first:
    "\<exists>r. get_world_history_summary (sample_env []) world_store ''whispering_woods'' 30 200
            = Inr (Some r)
          \<and> dominant_events r =
              [\<lparr>de_event_type = ''harm.fire'', de_actor = ''alice'', de_intensity = 2, de_count = 3\<rparr>]
          \<and> notable_actors r = [''alice'']"
    by blast
  from t0 c obtain r' where
    r': "get_world_history_summary (sample_env []) world_store ''whispering_woods'' 0 200
          = Inr (Some r')"
    by blast
  with t0 have "dominant_events r' = [] \<and> notable_actors r' = []"
    by (simp add: tr stl cut)
  with r' have second:
    "\<exists>r. get_world_history_summary (sample_env []) world_store ''whispering_woods'' 0 200
            = Inr (Some r)
          \<and> dominant_events r = [] \<and> notable_actors r = []"
    by blast
  from w c first second show ?thesis by blast
qed

end
